theory Spec2Isabelle
  imports Complex_Main
begin

section \<open>Python values\<close>

text \<open>
  The bridge script \<^verbatim>\<open>scripts/xlwings_bridge.py\<close> moves Python values between a JSON
  parameter bag, the automation library and a JSON result. \<open>PObj\<close> is an opaque object of
  the automation library (module, workbook, sheet, range, chart, macro, application),
  known only by its identity. A dict is an association list in insertion order.
  A float is kept as a real number: the script only tests it for zero.
\<close>

datatype pyval =
    PNone
  | PBool bool
  | PInt int
  | PFloat real
  | PStr string
  | PList "pyval list"
  | PDict "(string \<times> pyval) list"
  | PObj nat

text \<open>The truth value Python gives to \<^verbatim>\<open>if v:\<close> for data; an object without
  \<^verbatim>\<open>__bool__\<close> or \<^verbatim>\<open>__len__\<close> is true.\<close>

fun truthy :: "pyval \<Rightarrow> bool" where
  "truthy PNone = False"
| "truthy (PBool b) = b"
| "truthy (PInt i) = (i \<noteq> 0)"
| "truthy (PFloat x) = (x \<noteq> 0)"
| "truthy (PStr s) = (s \<noteq> [])"
| "truthy (PList xs) = (xs \<noteq> [])"
| "truthy (PDict kvs) = (kvs \<noteq> [])"
| "truthy (PObj n) = True"

text \<open>\<^verbatim>\<open>isinstance(v, list)\<close>.\<close>

fun is_list :: "pyval \<Rightarrow> bool" where
  "is_list (PList xs) = True"
| "is_list v = False"

text \<open>An exception, as far as the script looks at it: whether it is an instance of
  \<^verbatim>\<open>ImportError\<close>, and \<^verbatim>\<open>str(e)\<close>. Only instances of \<^verbatim>\<open>Exception\<close> are modelled.\<close>

datatype exc = Exc (is_import_error: bool) (message: string)

section \<open>The host: calls, answers and the trace\<close>

text \<open>
  Everything the script asks of the automation library is a call: importing the module,
  reading or writing an attribute of an object, calling a method
  (\<^verbatim>\<open>obj.m(args, kw=...)\<close> is one call), indexing, iterating a collection (one call that
  gives the items in order), taking the truth value of an object, calling a callable
  object. The host is a black box: it answers a call, given all calls and answers so
  far, with a value or with an exception.
  \<open>Print\<close> is the script writing one object to standard output.
\<close>

datatype call =
    Import string
  | GetAttr pyval string
  | SetAttr pyval string pyval
  | Invoke pyval string "pyval list" "(string \<times> pyval) list"
  | GetItem pyval pyval
  | Iter pyval
  | Bool pyval
  | Call pyval "pyval list"
  | Print pyval

type_synonym event = "call \<times> (exc + pyval)"

type_synonym host = "event list \<Rightarrow> call \<Rightarrow> exc + pyval"

text \<open>
  A piece of the script is a function of the history so far that gives its outcome
  (\<open>Inl\<close>: an exception is propagating, \<open>Inr\<close>: a value) and the events it added.
\<close>

type_synonym 'a prog = "event list \<Rightarrow> (exc + 'a) \<times> event list"

definition ret :: "'a \<Rightarrow> 'a prog" where
  "ret x = (\<lambda>tr. (Inr x, []))"

definition raise :: "exc \<Rightarrow> 'a prog" where
  "raise e = (\<lambda>tr. (Inl e, []))"

definition bind :: "'a prog \<Rightarrow> ('a \<Rightarrow> 'b prog) \<Rightarrow> 'b prog" where
  "bind m f = (\<lambda>tr. case m tr of
       (Inl e, n) \<Rightarrow> (Inl e, n)
     | (Inr x, n) \<Rightarrow> (case f x (tr @ n) of (r, n') \<Rightarrow> (r, n @ n')))"

text \<open>\<^verbatim>\<open>try: m  except Exception as e: hdl(e)\<close>.\<close>

definition try_except :: "'a prog \<Rightarrow> (exc \<Rightarrow> 'a prog) \<Rightarrow> 'a prog" where
  "try_except m hdl = (\<lambda>tr. case m tr of
       (Inl e, n) \<Rightarrow> (case hdl e (tr @ n) of (r, n') \<Rightarrow> (r, n @ n'))
     | (Inr x, n) \<Rightarrow> (Inr x, n))"

text \<open>A computation of Python itself, which asks nothing of the host: its outcome.\<close>

definition lift :: "exc + 'a \<Rightarrow> 'a prog" where
  "lift r = (\<lambda>tr. (r, []))"

definition perform :: "host \<Rightarrow> call \<Rightarrow> pyval prog" where
  "perform h c = (\<lambda>tr. (h tr c, [(c, h tr c)]))"

text \<open>
  Writing an object to standard output. \<^verbatim>\<open>print(json.dumps(v))\<close>, with the default
  \<^verbatim>\<open>ensure_ascii\<close>, writes pure ASCII text and is taken to succeed.
  \<^verbatim>\<open>print(json.dumps(v, ensure_ascii=False, default=str))\<close> writes the characters as
  they are: text that is pure ASCII is written; for any other object (a string with a
  character beyond ASCII, or an object of the host, whose text \<^verbatim>\<open>str\<close> decides) the
  outcome depends on the object and on the encoding of the output and is taken as a
  parameter \<open>pe\<close>: \<open>None\<close> when it is written, the exception when it raises.
  The event \<open>Print v\<close> records the attempt and its outcome.
\<close>

primrec ascii_only :: "pyval \<Rightarrow> bool" where
  "ascii_only PNone = True"
| "ascii_only (PBool b) = True"
| "ascii_only (PInt i) = True"
| "ascii_only (PFloat x) = True"
| "ascii_only (PStr s) = list_all (\<lambda>c. \<not> digit7 c) s"
| "ascii_only (PList xs) = list_all id (map ascii_only xs)"
| "ascii_only (PDict kvs) =
     list_all (\<lambda>(k, b). list_all (\<lambda>c. \<not> digit7 c) k \<and> b) (map (map_prod id ascii_only) kvs)"
| "ascii_only (PObj n) = False"

definition print_ascii :: "pyval \<Rightarrow> unit prog" where
  "print_ascii v = (\<lambda>tr. (Inr (), [(Print v, Inr PNone)]))"

definition print_raw :: "(pyval \<Rightarrow> exc option) \<Rightarrow> pyval \<Rightarrow> unit prog" where
  "print_raw pe v = (\<lambda>tr.
     if ascii_only v then (Inr (), [(Print v, Inr PNone)])
     else (case pe v of
             None \<Rightarrow> (Inr (), [(Print v, Inr PNone)])
           | Some e \<Rightarrow> (Inl e, [(Print v, Inl e)])))"

definition getattr :: "host \<Rightarrow> pyval \<Rightarrow> string \<Rightarrow> pyval prog" where
  "getattr h ob a = perform h (GetAttr ob a)"

definition setattr :: "host \<Rightarrow> pyval \<Rightarrow> string \<Rightarrow> pyval \<Rightarrow> pyval prog" where
  "setattr h ob a v = perform h (SetAttr ob a v)"

definition invoke :: "host \<Rightarrow> pyval \<Rightarrow> string \<Rightarrow> pyval list \<Rightarrow> pyval prog" where
  "invoke h ob m as = perform h (Invoke ob m as [])"

text \<open>\<^verbatim>\<open>import xlwings as xw\<close>.\<close>

definition import_xlwings :: "host \<Rightarrow> pyval prog" where
  "import_xlwings h = perform h (Import ''xlwings'')"

text \<open>\<^verbatim>\<open>bool(v)\<close> where \<open>v\<close> may be an object of the host, whose class decides.\<close>

definition py_bool :: "host \<Rightarrow> pyval \<Rightarrow> bool prog" where
  "py_bool h v = (case v of
       PObj n \<Rightarrow> bind (perform h (Bool v)) (\<lambda>b. ret (truthy b))
     | _ \<Rightarrow> ret (truthy v))"

text \<open>
  Iterating a value. Python iterates its own data itself: a list gives its items, a
  string its characters, a dict its keys; \<open>None\<close>, a boolean and a number are not
  iterable and raise \<^verbatim>\<open>TypeError\<close> with the name of their type. A string holds UTF-8
  bytes, so a character is a lead byte with the continuation bytes that follow it.
\<close>

function code_points :: "string \<Rightarrow> string list" where
  "code_points [] = []"
| "code_points (c # cs) =
     (c # takeWhile (\<lambda>b. digit7 b \<and> \<not> digit6 b) cs)
       # code_points (dropWhile (\<lambda>b. digit7 b \<and> \<not> digit6 b) cs)"
  by pat_completeness auto
termination
  by (relation "measure length") (auto simp: length_dropWhile_le less_Suc_eq_le)

definition data_items :: "pyval \<Rightarrow> pyval list option" where
  "data_items v = (case v of
       PList xs \<Rightarrow> Some xs
     | PStr s \<Rightarrow> Some (map PStr (code_points s))
     | PDict kvs \<Rightarrow> Some (map (\<lambda>(k, x). PStr k) kvs)
     | _ \<Rightarrow> None)"

definition type_name :: "pyval \<Rightarrow> string" where
  "type_name v = (case v of
       PNone \<Rightarrow> ''NoneType''
     | PBool b \<Rightarrow> ''bool''
     | PInt i \<Rightarrow> ''int''
     | PFloat x \<Rightarrow> ''float''
     | PStr s \<Rightarrow> ''str''
     | PList xs \<Rightarrow> ''list''
     | PDict kvs \<Rightarrow> ''dict''
     | PObj n \<Rightarrow> ''object'')"

text \<open>
  Iterating an object of the host is the call \<open>Iter\<close>: the host raises or gives the items
  in order. Its answer is read as a list (a value that is not a list has no items), and
  the event records that list.
\<close>

definition items :: "pyval \<Rightarrow> pyval list" where
  "items r = (case r of PList xs \<Rightarrow> xs | _ \<Rightarrow> [])"

definition host_iter :: "host \<Rightarrow> pyval \<Rightarrow> pyval list prog" where
  "host_iter h v = (\<lambda>tr. case h tr (Iter v) of
       Inl e \<Rightarrow> (Inl e, [(Iter v, Inl e)])
     | Inr r \<Rightarrow> (Inr (items r), [(Iter v, Inr (PList (items r)))]))"

text \<open>\<^verbatim>\<open>for x in v\<close>.\<close>

definition py_iter :: "host \<Rightarrow> pyval \<Rightarrow> pyval list prog" where
  "py_iter h v = (case v of
       PObj n \<Rightarrow> host_iter h v
     | _ \<Rightarrow> (case data_items v of
              Some xs \<Rightarrow> ret xs
            | None \<Rightarrow> raise (Exc False
                ([CHR 0x27] @ type_name v @ [CHR 0x27] @ '' object is not iterable''))))"

text \<open>
  The unpacking of \<^verbatim>\<open>f(*v)\<close>, which Python does before the call. For a value that is
  not iterable the message names the callable, in words that depend on its class and
  are taken as a parameter \<open>cn\<close>, and the type of the value.
\<close>

definition star_args :: "host \<Rightarrow> (pyval \<Rightarrow> string) \<Rightarrow> pyval \<Rightarrow> pyval \<Rightarrow> pyval list prog" where
  "star_args h cn f v = (case v of
       PObj n \<Rightarrow> host_iter h v
     | _ \<Rightarrow> (case data_items v of
              Some xs \<Rightarrow> ret xs
            | None \<Rightarrow> raise (Exc False
                (cn f @ '' argument after * must be an iterable, not '' @ type_name v))))"

section \<open>Messages and results\<close>

text \<open>The script's messages are Chinese text; a \<open>string\<close> holds their UTF-8 bytes.\<close>

definition msg_no_workbook :: string where
  "msg_no_workbook = [CHR 0xE6, CHR 0xB2, CHR 0xA1, CHR 0xE6, CHR 0x9C, CHR 0x89, CHR 0xE6,
     CHR 0x89, CHR 0x93, CHR 0xE5, CHR 0xBC, CHR 0x80, CHR 0xE7, CHR 0x9A, CHR 0x84, CHR 0xE5,
     CHR 0xB7, CHR 0xA5, CHR 0xE4, CHR 0xBD, CHR 0x9C, CHR 0xE7, CHR 0xB0, CHR 0xBF]"

definition msg_no_operation :: string where
  "msg_no_operation = [CHR 0xE6, CHR 0x9C, CHR 0xAA, CHR 0xE6, CHR 0x8C, CHR 0x87, CHR 0xE5,
     CHR 0xAE, CHR 0x9A, CHR 0xE6, CHR 0x93, CHR 0x8D, CHR 0xE4, CHR 0xBD, CHR 0x9C]"

definition msg_unknown_operation :: string where
  "msg_unknown_operation = [CHR 0xE6, CHR 0x9C, CHR 0xAA, CHR 0xE7, CHR 0x9F, CHR 0xA5,
     CHR 0xE6, CHR 0x93, CHR 0x8D, CHR 0xE4, CHR 0xBD, CHR 0x9C, CHR 0x3A, CHR 0x20]"

definition msg_written :: string where
  "msg_written = [CHR 0xE5, CHR 0xB7, CHR 0xB2, CHR 0xE5, CHR 0x86, CHR 0x99, CHR 0xE5,
     CHR 0x85, CHR 0xA5, CHR 0x20]"

definition msg_macro_pre :: string where
  "msg_macro_pre = [CHR 0xE5, CHR 0xAE, CHR 0x8F, CHR 0x20, CHR 0x27]"

definition msg_macro_post :: string where
  "msg_macro_post = [CHR 0x27, CHR 0x20, CHR 0xE6, CHR 0x89, CHR 0xA7, CHR 0xE8, CHR 0xA1,
     CHR 0x8C, CHR 0xE5, CHR 0xAE, CHR 0x8C, CHR 0xE6, CHR 0x88, CHR 0x90]"

definition msg_chart :: string where
  "msg_chart = [CHR 0xE5, CHR 0x9B, CHR 0xBE, CHR 0xE8, CHR 0xA1, CHR 0xA8, CHR 0xE5,
     CHR 0xB7, CHR 0xB2, CHR 0xE5, CHR 0x88, CHR 0x9B, CHR 0xE5, CHR 0xBB, CHR 0xBA, CHR 0xE5,
     CHR 0x9C, CHR 0xA8, CHR 0x20]"

text \<open>
  \<^verbatim>\<open>str(v)\<close>, used by the f-strings and by \<^verbatim>\<open>str(rng.value)\<close>: a string is itself; for
  every other value the text is Python's affair and is taken as a parameter \<open>sf\<close>.
\<close>

definition py_str :: "(pyval \<Rightarrow> string) \<Rightarrow> pyval \<Rightarrow> string" where
  "py_str sf v = (case v of PStr s \<Rightarrow> s | _ \<Rightarrow> sf v)"

text \<open>\<^verbatim>\<open>{"success": False, "error": m}\<close>.\<close>

definition failure :: "string \<Rightarrow> pyval" where
  "failure m = PDict [(''success'', PBool False), (''error'', PStr m)]"

text \<open>\<^verbatim>\<open>except Exception as e: return {"success": False, "error": str(e)}\<close>.\<close>

definition catch_all :: "pyval prog \<Rightarrow> pyval prog" where
  "catch_all m = try_except m (\<lambda>e. ret (failure (message e)))"

text \<open>\<^verbatim>\<open>xw.books.active\<close>.\<close>

definition books_active :: "host \<Rightarrow> pyval \<Rightarrow> pyval prog" where
  "books_active h xw = bind (getattr h xw ''books'') (\<lambda>bs. getattr h bs ''active'')"

text \<open>\<^verbatim>\<open>wb.sheets[sheet] if sheet else wb.sheets.active\<close>.\<close>

definition select_sheet :: "host \<Rightarrow> pyval \<Rightarrow> pyval \<Rightarrow> pyval prog" where
  "select_sheet h wb sheet =
     (if truthy sheet
      then bind (getattr h wb ''sheets'') (\<lambda>shs. perform h (GetItem shs sheet))
      else bind (getattr h wb ''sheets'') (\<lambda>shs. getattr h shs ''active''))"

section \<open>The handlers\<close>

text \<open>
  Each handler follows its source line by line. The parameters are whatever the caller
  put in the JSON bag, so they are values of any shape and the script's \<^verbatim>\<open>if p:\<close> is
  \<open>truthy p\<close>. The import is outside the \<^verbatim>\<open>try\<close>, as in the source.
\<close>

text \<open>
  Lines 64 to 69 of \<^verbatim>\<open>read_range\<close>, which have no name in the source:
  \<^verbatim>\<open>
  if isinstance(data, list):
      if data and not isinstance(data[0], list):
          data = [data]
  else:
      data = [[data]]
  \<close>
\<close>

definition normalize_value :: "pyval \<Rightarrow> pyval" where
  "normalize_value data =
     (if is_list data
      then (case data of
              PList (x # xs) \<Rightarrow> if \<not> is_list x then PList [data] else data
            | _ \<Rightarrow> data)
      else PList [PList [data]])"

definition read_range ::
  "host \<Rightarrow> (pyval \<Rightarrow> string) \<Rightarrow> pyval \<Rightarrow> pyval \<Rightarrow> pyval \<Rightarrow> pyval \<Rightarrow> pyval prog" where
  "read_range h sf file_path sheet range_addr as_values =
     bind (import_xlwings h) (\<lambda>xw.
     catch_all (
       bind (if truthy file_path then invoke h xw ''Book'' [file_path]
             else books_active h xw) (\<lambda>wb.
       if \<not> truthy file_path \<and> wb = PNone then ret (failure msg_no_workbook)
       else
       bind (select_sheet h wb sheet) (\<lambda>ws.
       bind (invoke h ws ''range'' [range_addr]) (\<lambda>rng.
       bind (if truthy as_values
             then bind (getattr h rng ''value'') (\<lambda>data. ret (normalize_value data))
             else bind (getattr h rng ''value'') (\<lambda>v. ret (PStr (py_str sf v)))) (\<lambda>data.
       bind (getattr h wb ''name'') (\<lambda>wb_name.
       bind (getattr h ws ''name'') (\<lambda>ws_name.
       bind (bind (getattr h rng ''rows'') (\<lambda>rs. getattr h rs ''count'')) (\<lambda>nrows.
       bind (bind (getattr h rng ''columns'') (\<lambda>cs. getattr h cs ''count'')) (\<lambda>ncols.
       let result = PDict [
             (''success'', PBool True),
             (''data'', data),
             (''workbook'', wb_name),
             (''sheet'', ws_name),
             (''range'', range_addr),
             (''rows'', nrows),
             (''cols'', ncols)]
       in if truthy file_path
          then bind (invoke h wb ''close'' []) (\<lambda>_. ret result)
          else ret result))))))))))"

definition write_range ::
  "host \<Rightarrow> (pyval \<Rightarrow> string) \<Rightarrow> pyval \<Rightarrow> pyval \<Rightarrow> pyval \<Rightarrow> pyval \<Rightarrow> pyval \<Rightarrow> pyval prog" where
  "write_range h sf file_path sheet range_addr data save =
     bind (import_xlwings h) (\<lambda>xw.
     catch_all (
       bind (if truthy file_path then invoke h xw ''Book'' [file_path]
             else books_active h xw) (\<lambda>wb.
       if \<not> truthy file_path \<and> wb = PNone then ret (failure msg_no_workbook)
       else
       bind (select_sheet h wb sheet) (\<lambda>ws.
       bind (invoke h ws ''range'' [range_addr]) (\<lambda>rng.
       bind (setattr h rng ''value'' data) (\<lambda>_.
       bind (if truthy save then bind (invoke h wb ''save'' []) (\<lambda>_. ret ())
             else ret ()) (\<lambda>_.
       bind (getattr h ws ''name'') (\<lambda>ws_name.
       bind (getattr h wb ''name'') (\<lambda>wb_name.
       bind (getattr h ws ''name'') (\<lambda>ws_name2.
       let result = PDict [
             (''success'', PBool True),
             (''message'', PStr (msg_written @ py_str sf ws_name @ ''!'' @ py_str sf range_addr)),
             (''workbook'', wb_name),
             (''sheet'', ws_name2)]
       in if truthy file_path
          then bind (invoke h wb ''close'' []) (\<lambda>_. ret result)
          else ret result))))))))))"

definition run_macro ::
  "host \<Rightarrow> (pyval \<Rightarrow> string) \<Rightarrow> (pyval \<Rightarrow> string) \<Rightarrow> pyval \<Rightarrow> pyval \<Rightarrow> pyval \<Rightarrow>
     pyval prog" where
  "run_macro h sf cn file_path macro_name args =
     bind (import_xlwings h) (\<lambda>xw.
     catch_all (
       bind (if truthy file_path then invoke h xw ''Book'' [file_path]
             else books_active h xw) (\<lambda>wb.
       if \<not> truthy file_path \<and> wb = PNone then ret (failure msg_no_workbook)
       else
       bind (invoke h wb ''macro'' [macro_name]) (\<lambda>macro.
       bind (if truthy args
             then bind (star_args h cn macro args) (\<lambda>xs. perform h (Call macro xs))
             else perform h (Call macro [])) (\<lambda>result_value.
       bind (getattr h wb ''name'') (\<lambda>wb_name.
       let result = PDict [
             (''success'', PBool True),
             (''message'', PStr (msg_macro_pre @ py_str sf macro_name @ msg_macro_post)),
             (''return_value'', result_value),
             (''workbook'', wb_name)]
       in if truthy file_path
          then bind (invoke h wb ''close'' []) (\<lambda>_. ret result)
          else ret result))))))"

text \<open>One turn of the loop of \<^verbatim>\<open>get_active_info\<close>: the record of one sheet. The test
  \<^verbatim>\<open>if used_range\<close> is made three times, once for each conditional expression.\<close>

definition sheet_info :: "host \<Rightarrow> pyval \<Rightarrow> pyval prog" where
  "sheet_info h ws =
     bind (getattr h ws ''used_range'') (\<lambda>used_range.
     bind (getattr h ws ''name'') (\<lambda>nm.
     bind (py_bool h used_range) (\<lambda>b1.
     bind (if b1 then getattr h used_range ''address'' else ret PNone) (\<lambda>addr.
     bind (py_bool h used_range) (\<lambda>b2.
     bind (if b2 then bind (getattr h used_range ''rows'') (\<lambda>rs. getattr h rs ''count'')
           else ret (PInt 0)) (\<lambda>nrows.
     bind (py_bool h used_range) (\<lambda>b3.
     bind (if b3 then bind (getattr h used_range ''columns'') (\<lambda>cs. getattr h cs ''count'')
           else ret (PInt 0)) (\<lambda>ncols.
     ret (PDict [
       (''name'', nm),
       (''used_range'', addr),
       (''rows'', nrows),
       (''cols'', ncols)])))))))))"

fun sheets_info :: "host \<Rightarrow> pyval list \<Rightarrow> pyval list prog" where
  "sheets_info h [] = ret []"
| "sheets_info h (ws # wss) =
     bind (sheet_info h ws) (\<lambda>i. bind (sheets_info h wss) (\<lambda>is. ret (i # is)))"

definition get_active_info :: "host \<Rightarrow> pyval prog" where
  "get_active_info h =
     bind (import_xlwings h) (\<lambda>xw.
     catch_all (
       bind (books_active h xw) (\<lambda>wb.
       if wb = PNone then ret (failure msg_no_workbook)
       else
       bind (getattr h wb ''sheets'') (\<lambda>shs.
       bind (py_iter h shs) (\<lambda>wss.
       bind (sheets_info h wss) (\<lambda>info.
       bind (getattr h wb ''name'') (\<lambda>wb_name.
       bind (getattr h wb ''fullname'') (\<lambda>wb_path.
       bind (bind (getattr h wb ''sheets'') (\<lambda>shs2.
             bind (getattr h shs2 ''active'') (\<lambda>act. getattr h act ''name''))) (\<lambda>act_name.
       ret (PDict [
         (''success'', PBool True),
         (''workbook'', wb_name),
         (''path'', wb_path),
         (''sheets'', PList info),
         (''active_sheet'', act_name)]))))))))))"

text \<open>\<^verbatim>\<open>[ws.name for ws in wb.sheets]\<close>, the items already taken from the collection.\<close>

fun sheet_names :: "host \<Rightarrow> pyval list \<Rightarrow> pyval list prog" where
  "sheet_names h [] = ret []"
| "sheet_names h (ws # wss) =
     bind (getattr h ws ''name'') (\<lambda>n. bind (sheet_names h wss) (\<lambda>ns. ret (n # ns)))"

definition list_sheets :: "host \<Rightarrow> pyval \<Rightarrow> pyval prog" where
  "list_sheets h file_path =
     bind (import_xlwings h) (\<lambda>xw.
     catch_all (
       bind (if truthy file_path then invoke h xw ''Book'' [file_path]
             else books_active h xw) (\<lambda>wb.
       if \<not> truthy file_path \<and> wb = PNone then ret (failure msg_no_workbook)
       else
       bind (getattr h wb ''sheets'') (\<lambda>shs.
       bind (py_iter h shs) (\<lambda>wss.
       bind (sheet_names h wss) (\<lambda>sheets.
       bind (getattr h wb ''name'') (\<lambda>wb_name.
       let result = PDict [
             (''success'', PBool True),
             (''workbook'', wb_name),
             (''sheets'', PList sheets),
             (''count'', PInt (int (length sheets)))]
       in if truthy file_path
          then bind (invoke h wb ''close'' []) (\<lambda>_. ret result)
          else ret result)))))))"

text \<open>The chart-type table of \<^verbatim>\<open>create_chart\<close> and \<^verbatim>\<open>chart_types.get(chart_type, "line")\<close>.
  A list or a dict is not hashable and the lookup raises \<^verbatim>\<open>TypeError\<close>; any other value
  that is not one of the keys gives the default.\<close>

definition chart_types :: "(string \<times> string) list" where
  "chart_types = [
     (''line'', ''line''),
     (''bar'', ''bar_clustered''),
     (''column'', ''column_clustered''),
     (''pie'', ''pie''),
     (''scatter'', ''xy_scatter''),
     (''area'', ''area'')]"

definition chart_types_get :: "pyval \<Rightarrow> string prog" where
  "chart_types_get chart_type = (case chart_type of
       PStr s \<Rightarrow> ret (case map_of chart_types s of Some t \<Rightarrow> t | None \<Rightarrow> ''line'')
     | PList xs \<Rightarrow> raise (Exc False (''unhashable type: '' @ [CHR 0x27] @ ''list'' @ [CHR 0x27]))
     | PDict kvs \<Rightarrow> raise (Exc False (''unhashable type: '' @ [CHR 0x27] @ ''dict'' @ [CHR 0x27]))
     | _ \<Rightarrow> ret ''line'')"

definition create_chart ::
  "host \<Rightarrow> (pyval \<Rightarrow> string) \<Rightarrow> pyval \<Rightarrow> pyval \<Rightarrow> pyval \<Rightarrow> pyval \<Rightarrow> pyval \<Rightarrow> pyval \<Rightarrow> pyval prog"
  where
  "create_chart h sf file_path sheet data_range chart_type title position =
     bind (import_xlwings h) (\<lambda>xw.
     catch_all (
       bind (if truthy file_path then invoke h xw ''Book'' [file_path]
             else books_active h xw) (\<lambda>wb.
       if \<not> truthy file_path \<and> wb = PNone then ret (failure msg_no_workbook)
       else
       bind (select_sheet h wb sheet) (\<lambda>ws.
       bind (chart_types_get chart_type) (\<lambda>ct.
       bind (getattr h ws ''charts'') (\<lambda>charts.
       bind (bind (invoke h ws ''range'' [position]) (\<lambda>r. getattr h r ''left'')) (\<lambda>left.
       bind (bind (invoke h ws ''range'' [position]) (\<lambda>r. getattr h r ''top'')) (\<lambda>top.
       bind (perform h (Invoke charts ''add'' [] [(''left'', left), (''top'', top)])) (\<lambda>chart.
       bind (invoke h ws ''range'' [data_range]) (\<lambda>src.
       bind (invoke h chart ''set_source_data'' [src]) (\<lambda>_.
       bind (setattr h chart ''chart_type'' (PStr ct)) (\<lambda>_.
       bind (if truthy title
             then bind (getattr h chart ''api'') (\<lambda>api1.
                  bind (setattr h api1 ''HasTitle'' (PBool True)) (\<lambda>_.
                  bind (getattr h chart ''api'') (\<lambda>api2.
                  bind (getattr h api2 ''ChartTitle'') (\<lambda>ctitle.
                  bind (setattr h ctitle ''Text'' title) (\<lambda>_. ret ())))))
             else ret ()) (\<lambda>_.
       bind (invoke h wb ''save'' []) (\<lambda>_.
       bind (getattr h ws ''name'') (\<lambda>ws_name.
       let result = PDict [
             (''success'', PBool True),
             (''message'', PStr (msg_chart @ py_str sf ws_name @ ''!'' @ py_str sf position)),
             (''chart_type'', chart_type),
             (''data_range'', data_range)]
       in if truthy file_path
          then bind (invoke h wb ''close'' []) (\<lambda>_. ret result)
          else ret result)))))))))))))))"

section \<open>The capability check and the entry point\<close>

text \<open>\<^verbatim>\<open>check_xlwings\<close> catches \<^verbatim>\<open>ImportError\<close> only; \<^verbatim>\<open>check_excel\<close> catches every
  exception.\<close>

definition check_xlwings :: "host \<Rightarrow> bool prog" where
  "check_xlwings h =
     try_except (bind (import_xlwings h) (\<lambda>xw. ret True))
       (\<lambda>e. if is_import_error e then ret False else raise e)"

definition check_excel :: "host \<Rightarrow> bool prog" where
  "check_excel h =
     try_except
       (bind (import_xlwings h) (\<lambda>xw.
        bind (perform h (Invoke xw ''App'' [] [(''visible'', PBool False)])) (\<lambda>app.
        bind (invoke h app ''quit'' []) (\<lambda>_. ret True))))
       (\<lambda>e. ret False)"

text \<open>
  \<^verbatim>\<open>op_func(**params)\<close>: the bag must be a dict, and each of its keys the name of a
  parameter of the handler; otherwise the call itself raises \<^verbatim>\<open>TypeError\<close>, outside
  every \<^verbatim>\<open>try\<close>. All parameters of all handlers have defaults.
\<close>

definition bind_kwargs :: "string \<Rightarrow> string list \<Rightarrow> pyval \<Rightarrow> (string \<Rightarrow> pyval option) prog" where
  "bind_kwargs fname names params = (case params of
       PDict kvs \<Rightarrow>
         (case filter (\<lambda>k. k \<notin> set names) (map fst kvs) of
            [] \<Rightarrow> ret (map_of kvs)
          | k # ks \<Rightarrow> raise (Exc False
              (fname @ ''() got an unexpected keyword argument '' @ [CHR 0x27] @ k @ [CHR 0x27])))
     | _ \<Rightarrow> raise (Exc False (fname @ ''() argument after ** must be a mapping'')))"

definition arg :: "(string \<Rightarrow> pyval option) \<Rightarrow> string \<Rightarrow> pyval \<Rightarrow> pyval" where
  "arg kw name dflt = (case kw name of Some v \<Rightarrow> v | None \<Rightarrow> dflt)"

text \<open>The names of the parameters of the handler registered under an operation.\<close>

definition op_parameters :: "string \<Rightarrow> string list" where
  "op_parameters opn =
     (if opn = ''read'' then [''file_path'', ''sheet'', ''range_addr'', ''as_values'']
      else if opn = ''write'' then [''file_path'', ''sheet'', ''range_addr'', ''data'', ''save'']
      else if opn = ''run_macro'' then [''file_path'', ''macro_name'', ''args'']
      else if opn = ''get_active'' then []
      else if opn = ''list_sheets'' then [''file_path'']
      else if opn = ''create_chart''
        then [''file_path'', ''sheet'', ''data_range'', ''chart_type'', ''title'', ''position'']
      else [])"

definition call_read_range :: "host \<Rightarrow> (pyval \<Rightarrow> string) \<Rightarrow> pyval \<Rightarrow> pyval prog" where
  "call_read_range h sf params =
     bind (bind_kwargs ''read_range'' (op_parameters ''read'') params)
       (\<lambda>kw. read_range h sf (arg kw ''file_path'' PNone) (arg kw ''sheet'' PNone)
                (arg kw ''range_addr'' (PStr ''A1'')) (arg kw ''as_values'' (PBool True)))"

definition call_write_range :: "host \<Rightarrow> (pyval \<Rightarrow> string) \<Rightarrow> pyval \<Rightarrow> pyval prog" where
  "call_write_range h sf params =
     bind (bind_kwargs ''write_range'' (op_parameters ''write'') params)
       (\<lambda>kw. write_range h sf (arg kw ''file_path'' PNone) (arg kw ''sheet'' PNone)
                (arg kw ''range_addr'' (PStr ''A1'')) (arg kw ''data'' PNone)
                (arg kw ''save'' (PBool True)))"

definition call_run_macro ::
  "host \<Rightarrow> (pyval \<Rightarrow> string) \<Rightarrow> (pyval \<Rightarrow> string) \<Rightarrow> pyval \<Rightarrow> pyval prog" where
  "call_run_macro h sf cn params =
     bind (bind_kwargs ''run_macro'' (op_parameters ''run_macro'') params)
       (\<lambda>kw. run_macro h sf cn (arg kw ''file_path'' PNone) (arg kw ''macro_name'' (PStr []))
                (arg kw ''args'' PNone))"

definition call_get_active_info :: "host \<Rightarrow> pyval \<Rightarrow> pyval prog" where
  "call_get_active_info h params =
     bind (bind_kwargs ''get_active_info'' (op_parameters ''get_active'') params)
       (\<lambda>kw. get_active_info h)"

definition call_list_sheets :: "host \<Rightarrow> pyval \<Rightarrow> pyval prog" where
  "call_list_sheets h params =
     bind (bind_kwargs ''list_sheets'' (op_parameters ''list_sheets'') params)
       (\<lambda>kw. list_sheets h (arg kw ''file_path'' PNone))"

definition call_create_chart :: "host \<Rightarrow> (pyval \<Rightarrow> string) \<Rightarrow> pyval \<Rightarrow> pyval prog" where
  "call_create_chart h sf params =
     bind (bind_kwargs ''create_chart'' (op_parameters ''create_chart'') params)
       (\<lambda>kw. create_chart h sf (arg kw ''file_path'' PNone) (arg kw ''sheet'' PNone)
                (arg kw ''data_range'' (PStr ''A1:B10'')) (arg kw ''chart_type'' (PStr ''line''))
                (arg kw ''title'' (PStr [])) (arg kw ''position'' (PStr ''E1'')))"

text \<open>The registry of \<^verbatim>\<open>main\<close>, with the keyword call of the handler found.\<close>

definition operations ::
  "host \<Rightarrow> (pyval \<Rightarrow> string) \<Rightarrow> (pyval \<Rightarrow> string) \<Rightarrow> string \<Rightarrow> (pyval \<Rightarrow> pyval prog) option"
  where
  "operations h sf cn name =
     (if name = ''read'' then Some (call_read_range h sf)
      else if name = ''write'' then Some (call_write_range h sf)
      else if name = ''run_macro'' then Some (call_run_macro h sf cn)
      else if name = ''get_active'' then Some (call_get_active_info h)
      else if name = ''list_sheets'' then Some (call_list_sheets h)
      else if name = ''create_chart'' then Some (call_create_chart h sf)
      else None)"

text \<open>
  The parsed command line. \<^verbatim>\<open>json.loads\<close> is taken as a parameter \<open>jl\<close>: it gives the
  decoded value or raises. The two messages of \<^verbatim>\<open>main\<close> itself are written with the
  default \<^verbatim>\<open>ensure_ascii\<close>; the capability object and the result of a handler with
  \<^verbatim>\<open>ensure_ascii=False\<close>.
  The outcome \<open>Inl e\<close> of \<open>main\<close> is an exception that nobody caught: the interpreter
  ends with a traceback and nothing more is printed.
\<close>

record args =
  check :: bool
  operation :: "string option"
  params :: "string option"

text \<open>\<^verbatim>\<open>json.loads(args.params) if args.params else {}\<close>.\<close>

definition params_value :: "(string \<Rightarrow> exc + pyval) \<Rightarrow> args \<Rightarrow> exc + pyval" where
  "params_value jl a = (case params a of
       None \<Rightarrow> Inr (PDict [])
     | Some s \<Rightarrow> if s = [] then Inr (PDict []) else jl s)"

definition main ::
  "host \<Rightarrow> (pyval \<Rightarrow> string) \<Rightarrow> (pyval \<Rightarrow> string) \<Rightarrow> (string \<Rightarrow> exc + pyval) \<Rightarrow>
     (pyval \<Rightarrow> exc option) \<Rightarrow> args \<Rightarrow> unit prog" where
  "main h sf cn jl pe a =
     (if check a then
        bind (check_xlwings h) (\<lambda>xlwings_available.
        bind (bind (check_xlwings h) (\<lambda>b. if b then check_excel h else ret False))
          (\<lambda>excel_available.
        print_raw pe (PDict [
          (''xlwings_available'', PBool xlwings_available),
          (''excel_available'', PBool excel_available)])))
      else (case operation a of
          None \<Rightarrow> print_ascii (failure msg_no_operation)
        | Some opn \<Rightarrow>
            if opn = [] then print_ascii (failure msg_no_operation)
            else
              bind (lift (params_value jl a)) (\<lambda>ps.
              case operations h sf cn opn of
                None \<Rightarrow> print_ascii (failure (msg_unknown_operation @ opn))
              | Some op_func \<Rightarrow> bind (op_func ps) (\<lambda>result. print_raw pe result))))"

section \<open>Reading results and traces\<close>

text \<open>\<^verbatim>\<open>r[k]\<close> of a result object, and whether it reports success.\<close>

definition field :: "pyval \<Rightarrow> string \<Rightarrow> pyval option" where
  "field r k = (case r of PDict kvs \<Rightarrow> map_of kvs k | _ \<Rightarrow> None)"

definition is_success :: "pyval \<Rightarrow> bool" where
  "is_success r = (field r ''success'' = Some (PBool True))"

text \<open>A result object: the success fields of an operation, or a single error string.\<close>

definition is_result :: "pyval \<Rightarrow> bool" where
  "is_result r = (is_success r \<or>
     (case field r ''error'' of Some (PStr m) \<Rightarrow> r = failure m | _ \<Rightarrow> False))"

definition is_print :: "event \<Rightarrow> bool" where
  "is_print ev = (case fst ev of Print v \<Rightarrow> True | _ \<Rightarrow> False)"

text \<open>A call of \<^verbatim>\<open>save()\<close> on some object, whatever came of it.\<close>

definition is_save_call :: "event \<Rightarrow> bool" where
  "is_save_call ev = (case fst ev of Invoke ob m as kw \<Rightarrow> m = ''save'' | _ \<Rightarrow> False)"

text \<open>A host that answers every call with the same object, and one on which the
  automation library is not installed.\<close>

definition ok_host :: host where
  "ok_host = (\<lambda>tr c. Inr (PObj 1))"

definition no_lib_host :: host where
  "no_lib_host = (\<lambda>tr c. Inl (Exc True ''No module named xlwings''))"

text \<open>A stand-in for Python's \<^verbatim>\<open>str\<close> on values that are not strings, for concrete runs.\<close>

definition obj_str :: "pyval \<Rightarrow> string" where
  "obj_str v = ''obj''"

text \<open>Stand-ins for concrete runs: the words with which the interpreter names a macro
  object, an output that takes every character, and one that takes ASCII only.\<close>

definition macro_str :: "pyval \<Rightarrow> string" where
  "macro_str f = ''Macro object''"

definition wide_out :: "pyval \<Rightarrow> exc option" where
  "wide_out v = None"

definition narrow_out :: "pyval \<Rightarrow> exc option" where
  "narrow_out v = Some (Exc False ''codec cannot encode characters'')"

text \<open>
  \<open>resolved fp wb evs\<close>: in the events \<open>evs\<close> of a handler, \<open>wb\<close> is the document that the
  path \<open>fp\<close> was resolved to: what \<^verbatim>\<open>xw.Book(fp)\<close> returned when a path is given, what
  \<^verbatim>\<open>xw.books.active\<close> returned otherwise (\<open>None\<close> when the host has no open document).
\<close>

definition resolved :: "pyval \<Rightarrow> pyval \<Rightarrow> event list \<Rightarrow> bool" where
  "resolved fp wb evs =
     (if truthy fp
      then \<exists>xw. take 2 evs =
             [(Import ''xlwings'', Inr xw), (Invoke xw ''Book'' [fp] [], Inr wb)]
      else \<exists>xw bs. take 3 evs =
             [(Import ''xlwings'', Inr xw), (GetAttr xw ''books'', Inr bs),
              (GetAttr bs ''active'', Inr wb)])"

text \<open>A call of \<^verbatim>\<open>close()\<close> that returned.\<close>

definition ok_close :: "event \<Rightarrow> bool" where
  "ok_close ev = (case ev of (Invoke ob m as kw, Inr a) \<Rightarrow> m = ''close'' | _ \<Rightarrow> False)"

text \<open>Reading an attribute or the truth value of an object.\<close>

definition is_read :: "event \<Rightarrow> bool" where
  "is_read ev = (case fst ev of GetAttr ob a \<Rightarrow> True | Bool ob \<Rightarrow> True | _ \<Rightarrow> False)"

text \<open>A call that returned, and a run of events of which the last raised \<open>e\<close> and all
  before it returned.\<close>

definition returned :: "event \<Rightarrow> bool" where
  "returned ev = (case snd ev of Inr v \<Rightarrow> True | Inl e \<Rightarrow> False)"

definition raises_last :: "exc \<Rightarrow> event list \<Rightarrow> bool" where
  "raises_last e evs = (evs \<noteq> [] \<and> snd (last evs) = Inl e \<and> list_all returned (butlast evs))"

text \<open>A loop of reads is calm: it only reads, and either every call returned or the
  exception that propagates is the one raised by the last call.\<close>

definition calm :: "(exc + 'a) \<Rightarrow> event list \<Rightarrow> bool" where
  "calm r evs = (list_all is_read evs \<and>
     (case r of Inr x \<Rightarrow> list_all returned evs | Inl e \<Rightarrow> raises_last e evs))"

text \<open>The events of \<^verbatim>\<open>[ws.name for ws in ...]\<close> over the sheets \<open>wss\<close> when the host
  answers with the names \<open>ns\<close>.\<close>

definition name_events :: "pyval list \<Rightarrow> pyval list \<Rightarrow> event list" where
  "name_events wss ns = map (\<lambda>(w, n). (GetAttr w ''name'', Inr n)) (zip wss ns)"

section \<open>A calculus of outcomes\<close>

text \<open>
  \<open>sat m Q\<close>: whatever the history, the outcome of \<open>m\<close> and the events it adds satisfy
  \<open>Q\<close>. Its rules follow the structure of a program, with the answer of the host to
  each call left arbitrary.
\<close>

definition sat :: "'a prog \<Rightarrow> ((exc + 'a) \<Rightarrow> event list \<Rightarrow> bool) \<Rightarrow> bool" where
  "sat m Q = (\<forall>tr. case m tr of (r, evs) \<Rightarrow> Q r evs)"


section \<open>Comparing two runs\<close>

text \<open>\<open>map_prog g m\<close> is \<open>m\<close> with \<open>g\<close> applied to the value it returns; the calls
  are the same.\<close>

definition map_prog :: "('a \<Rightarrow> 'b) \<Rightarrow> 'a prog \<Rightarrow> 'b prog" where
  "map_prog g m = (\<lambda>tr. case m tr of (res, evs) \<Rightarrow> (map_sum id g res, evs))"

text \<open>A success result with its \<^verbatim>\<open>chart_type\<close> field replaced by \<open>v\<close>; a failure result
  is left as it is.\<close>

definition echo_chart_type :: "pyval \<Rightarrow> pyval \<Rightarrow> pyval" where
  "echo_chart_type v r = (case r of
       PDict kvs \<Rightarrow>
         if is_success r
         then PDict (map (\<lambda>(k, x). if k = ''chart_type'' then (k, v) else (k, x)) kvs)
         else r
     | _ \<Rightarrow> r)"

text \<open>The outcome that \<open>catch_all\<close> makes of the outcome of its body.\<close>

definition guard ::
  "((exc + pyval) \<Rightarrow> event list \<Rightarrow> bool) \<Rightarrow> (exc + pyval) \<Rightarrow> event list \<Rightarrow> bool" where
  "guard Q r n = (case r of Inl e \<Rightarrow> Q (Inr (failure (message e))) n | Inr x \<Rightarrow> Q (Inr x) n)"

section \<open>What the claims say of an outcome\<close>

text \<open>
  The outcome of a handler called with the path \<open>fp\<close> closes on success only: after a
  success result the last event is a \<^verbatim>\<open>close()\<close> of the resolved document that returned,
  and it is the only one; otherwise (a failure result, or the import raising) no
  \<^verbatim>\<open>close()\<close> has returned.
\<close>

definition closes_only_on_success :: "pyval \<Rightarrow> (exc + pyval) \<times> event list \<Rightarrow> bool" where
  "closes_only_on_success fp out =
     (case out of
        (Inr r, evs) \<Rightarrow>
          if is_success r
          then evs \<noteq> [] \<and> \<not> list_ex ok_close (butlast evs) \<and>
               (\<exists>wb a. resolved fp wb evs \<and> last evs = (Invoke wb ''close'' [] [], Inr a))
          else \<not> list_ex ok_close evs
      | (Inl e, evs) \<Rightarrow> \<not> list_ex ok_close evs)"

text \<open>After a success result, the document closed by the last event was saved before.\<close>

definition saved_before_close :: "(exc + pyval) \<times> event list \<Rightarrow> bool" where
  "saved_before_close out =
     (case out of
        (Inr r, evs) \<Rightarrow>
          is_success r \<longrightarrow>
            (\<exists>wb a b. evs \<noteq> [] \<and> last evs = (Invoke wb ''close'' [] [], Inr a)
               \<and> (Invoke wb ''save'' [] [], Inr b) \<in> set (butlast evs))
      | (Inl e, evs) \<Rightarrow> True)"

text \<open>After a success result, the resolved document has been saved.\<close>

definition saves_resolved :: "pyval \<Rightarrow> (exc + pyval) \<times> event list \<Rightarrow> bool" where
  "saves_resolved fp out =
     (case out of
        (Inr r, evs) \<Rightarrow>
          is_success r \<longrightarrow>
            (\<exists>wb b. resolved fp wb evs \<and> (Invoke wb ''save'' [] [], Inr b) \<in> set evs)
      | (Inl e, evs) \<Rightarrow> True)"

text \<open>Somewhere in the events, one that satisfies \<open>P\<close> is directly followed by one that
  satisfies \<open>Q\<close>.\<close>

fun followed_by :: "(event \<Rightarrow> bool) \<Rightarrow> (event \<Rightarrow> bool) \<Rightarrow> event list \<Rightarrow> bool" where
  "followed_by P Q (x # y # ys) = (P x \<and> Q y \<or> followed_by P Q (y # ys))"
| "followed_by P Q evs = False"

text \<open>Assigning \<open>data\<close> to the \<^verbatim>\<open>value\<close> of a range, and saving \<open>wb\<close>, both returning.\<close>

definition wrote :: "pyval \<Rightarrow> event \<Rightarrow> bool" where
  "wrote data ev = (case ev of (SetAttr rng a v, Inr x) \<Rightarrow> a = ''value'' \<and> v = data
                             | _ \<Rightarrow> False)"

definition saved :: "pyval \<Rightarrow> event \<Rightarrow> bool" where
  "saved wb ev = (case ev of (Invoke ob m as kw, Inr x) \<Rightarrow> ob = wb \<and> m = ''save'' \<and> as = [] \<and> kw = []
                           | _ \<Rightarrow> False)"

text \<open>After a success result, the resolved document was saved right after the value
  was written.\<close>

definition saved_after_write :: "pyval \<Rightarrow> pyval \<Rightarrow> (exc + pyval) \<times> event list \<Rightarrow> bool" where
  "saved_after_write fp data out =
     (case out of
        (Inr r, evs) \<Rightarrow>
          is_success r \<longrightarrow> (\<exists>wb. resolved fp wb evs \<and> followed_by (wrote data) (saved wb) evs)
      | (Inl e, evs) \<Rightarrow> True)"

text \<open>
  The handler called with the path \<open>fp\<close> completes: when every call to the host returned
  and a document was resolved (a path was given, or the active document was not
  \<open>None\<close>), the outcome is a success result.
\<close>

definition completes :: "pyval \<Rightarrow> (exc + pyval) \<times> event list \<Rightarrow> bool" where
  "completes fp out =
     (case out of (res, evs) \<Rightarrow>
        list_all returned evs \<and> (truthy fp \<or> \<not> resolved fp PNone evs) \<longrightarrow>
          (case res of Inr r \<Rightarrow> is_success r | Inl e \<Rightarrow> False))"

text \<open>
  An event that leaves the chart type alone or sets it to \<open>t\<close>, and an assignment of
  \<open>t\<close> to the chart type that returned.
\<close>

definition sets_no_type_but :: "string \<Rightarrow> event \<Rightarrow> bool" where
  "sets_no_type_but t ev = (case fst ev of
       SetAttr ob a v \<Rightarrow> a = ''chart_type'' \<longrightarrow> v = PStr t
     | _ \<Rightarrow> True)"

definition type_set :: "string \<Rightarrow> event \<Rightarrow> bool" where
  "type_set t ev = (case ev of
       (SetAttr ob a v, Inr x) \<Rightarrow> a = ''chart_type'' \<and> v = PStr t
     | _ \<Rightarrow> False)"

text \<open>
  The outcome of \<^verbatim>\<open>create_chart\<close> for the chart type string \<open>s\<close>: no chart type but
  "line" is set on the host; a success result comes after "line" was set and carries
  \<open>s\<close> in its \<^verbatim>\<open>chart_type\<close> field; and the handler completes.
\<close>

definition charted_as_line :: "string \<Rightarrow> pyval \<Rightarrow> (exc + pyval) \<times> event list \<Rightarrow> bool" where
  "charted_as_line s fp out =
     (case out of (res, evs) \<Rightarrow>
        list_all (sets_no_type_but ''line'') evs \<and>
        (case res of
           Inr r \<Rightarrow>
             is_success r \<longrightarrow>
               list_ex (type_set ''line'') evs \<and> field r ''chart_type'' = Some (PStr s)
         | Inl e \<Rightarrow> True) \<and>
        completes fp (res, evs))"

text \<open>
  The outcome of a handler that resolves its document without a path. When
  \<^verbatim>\<open>xw.books.active\<close> gave \<open>None\<close>, it is the failure result with the no-workbook
  message, after these three calls and no other. When a call to the host raised
  instead, it is the failure result with the message of the host. Only the import lets
  an exception through.
\<close>

definition active_document_outcome :: "pyval \<Rightarrow> (exc + pyval) \<times> event list \<Rightarrow> bool" where
  "active_document_outcome fp out =
     (case out of (res, evs) \<Rightarrow>
        (resolved fp PNone evs \<longrightarrow> res = Inr (failure msg_no_workbook) \<and> length evs = 3) \<and>
        (\<forall>c e. (c, Inl e) \<in> set (tl evs) \<longrightarrow> res = Inr (failure (message e))) \<and>
        (\<forall>e. res = Inl e \<longrightarrow> evs = [(Import ''xlwings'', Inl e)]))"

text \<open>A host with no open document: \<^verbatim>\<open>active\<close> is \<open>None\<close>, every other call gives an
  object.\<close>

definition empty_host :: host where
  "empty_host = (\<lambda>tr c. case c of
       GetAttr ob a \<Rightarrow> if a = ''active'' then Inr PNone else Inr (PObj 1)
     | _ \<Rightarrow> Inr (PObj 1))"

text \<open>A host with no open document that raises when it is asked for the active one.\<close>

definition no_document_host :: host where
  "no_document_host = (\<lambda>tr c. case c of
       GetAttr ob a \<Rightarrow>
         if a = ''active'' then Inl (Exc False ''no active workbook'') else Inr (PObj 1)
     | _ \<Rightarrow> Inr (PObj 1))"

text \<open>
  Every exception raised by a call after the import has become the failure result that
  carries its message, and only the import lets an exception through.
\<close>

definition error_verbatim :: "(exc + pyval) \<times> event list \<Rightarrow> bool" where
  "error_verbatim out =
     (case out of (res, evs) \<Rightarrow>
        (\<forall>c e. (c, Inl e) \<in> set (tl evs) \<longrightarrow> res = Inr (failure (message e))) \<and>
        (\<forall>e. res = Inl e \<longrightarrow> evs = [(Import ''xlwings'', Inl e)]))"

text \<open>A host on which calling a macro raises, and every other call gives an object.\<close>

definition no_macro_host :: host where
  "no_macro_host = (\<lambda>tr c. case c of
       Call f as \<Rightarrow> Inl (Exc False ''Macro not found: Missing'')
     | _ \<Rightarrow> Inr (PObj 1))"

text \<open>
  The shapes of a cell-value payload. A grid is a list of rows, each a list, all of the
  same length; a flat list has no list among its items.
\<close>

definition is_grid :: "pyval \<Rightarrow> bool" where
  "is_grid v = (case v of
       PList rows \<Rightarrow>
         list_all is_list rows \<and>
         list_all (\<lambda>row. case row of PList cs \<Rightarrow>
                      (case hd rows of PList ds \<Rightarrow> length cs = length ds | _ \<Rightarrow> False)
                    | _ \<Rightarrow> False) rows
     | _ \<Rightarrow> False)"

definition is_flat :: "pyval \<Rightarrow> bool" where
  "is_flat v = (case v of PList xs \<Rightarrow> list_all (\<lambda>x. \<not> is_list x) xs | _ \<Rightarrow> False)"

text \<open>After a success result of \<^verbatim>\<open>read\<close>, the \<^verbatim>\<open>data\<close> field is \<open>g v\<close> for the value
  \<open>v\<close> that the host gave for the range.\<close>

definition data_from_host ::
  "(pyval \<Rightarrow> pyval) \<Rightarrow> (exc + pyval) \<times> event list \<Rightarrow> bool" where
  "data_from_host g out =
     (case out of
        (Inr r, evs) \<Rightarrow>
          is_success r \<longrightarrow>
            (\<exists>rng v. (GetAttr rng ''value'', Inr v) \<in> set evs \<and> field r ''data'' = Some (g v))
      | (Inl e, evs) \<Rightarrow> True)"

text \<open>\<^verbatim>\<open>str(v)\<close> as a value.\<close>

definition as_text :: "(pyval \<Rightarrow> string) \<Rightarrow> pyval \<Rightarrow> pyval" where
  "as_text sf v = PStr (py_str sf v)"

text \<open>
  A host with one open document, Book1, whose active sheet is Sheet1 and whose cells
  hold the number 5: the library is object 0, the collection of documents 1, the
  document 2, its sheets 3, the sheet 4, a range 5, its rows and columns 6. With it, a
  stand-in for \<^verbatim>\<open>str\<close> in runs that apply it to that number only.
\<close>

definition cell_host :: host where
  "cell_host = (\<lambda>tr c. case c of
       Import s \<Rightarrow> Inr (PObj 0)
     | GetAttr ob a \<Rightarrow>
         if a = ''books'' then Inr (PObj 1)
         else if a = ''active'' then (if ob = PObj 1 then Inr (PObj 2) else Inr (PObj 4))
         else if a = ''sheets'' then Inr (PObj 3)
         else if a = ''name''
           then (if ob = PObj 2 then Inr (PStr ''Book1'') else Inr (PStr ''Sheet1''))
         else if a = ''value'' then Inr (PInt 5)
         else if a = ''count'' then Inr (PInt 1)
         else Inr (PObj 6)
     | _ \<Rightarrow> Inr (PObj 5))"

definition five_str :: "pyval \<Rightarrow> string" where
  "five_str v = ''5''"

text \<open>
  After a success result of \<^verbatim>\<open>list_sheets\<close>: the sheets \<open>wss\<close> are what iterating
  \<^verbatim>\<open>wb.sheets\<close> of the resolved document gave, in that order; the \<open>i\<close>-th name of the
  result is what the host answered for the name of the \<open>i\<close>-th sheet; the count is the
  number of names.
\<close>

definition sheets_listed :: "pyval \<Rightarrow> (exc + pyval) \<times> event list \<Rightarrow> bool" where
  "sheets_listed fp out =
     (case out of
        (Inr r, evs) \<Rightarrow>
          is_success r \<longrightarrow>
            (\<exists>wb shs wss ns.
               resolved fp wb evs \<and> (GetAttr wb ''sheets'', Inr shs) \<in> set evs \<and>
               (data_items shs = Some wss \<or> (Iter shs, Inr (PList wss)) \<in> set evs) \<and>
               length ns = length wss \<and> set (name_events wss ns) \<subseteq> set evs \<and>
               field r ''sheets'' = Some (PList ns) \<and>
               field r ''count'' = Some (PInt (int (length ns))))
      | (Inl e, evs) \<Rightarrow> True)"

text \<open>A host with one open document whose sheets are Sheet1, Summary and Data.\<close>

definition three_sheets_host :: host where
  "three_sheets_host = (\<lambda>tr c. case c of
       Iter ob \<Rightarrow> Inr (PList [PObj 11, PObj 12, PObj 13])
     | GetAttr ob a \<Rightarrow>
         if a = ''name'' then
           (if ob = PObj 11 then Inr (PStr ''Sheet1'')
            else if ob = PObj 12 then Inr (PStr ''Summary'')
            else if ob = PObj 13 then Inr (PStr ''Data'')
            else Inr (PStr ''Book1''))
         else Inr (PObj 1)
     | _ \<Rightarrow> Inr (PObj 1))"

text \<open>An import that raised.\<close>

definition import_failed :: "event \<Rightarrow> bool" where
  "import_failed ev = (case ev of (Import s, Inl e) \<Rightarrow> True | _ \<Rightarrow> False)"

text \<open>
  The outcome of a handler is handled: if an exception propagates it is the one the
  import raised, before anything else was done; otherwise no import raised, the value is
  a result object, and if any call raised, it is the failure result with the message of
  that exception. A handler prints nothing.
\<close>

definition handled :: "(exc + pyval) \<times> event list \<Rightarrow> bool" where
  "handled out =
     (case out of
        (Inl e, evs) \<Rightarrow> evs = [(Import ''xlwings'', Inl e)]
      | (Inr r, evs) \<Rightarrow>
          is_result r \<and> \<not> list_ex is_print evs \<and> \<not> list_ex import_failed evs \<and>
          (\<forall>c e. (c, Inl e) \<in> set evs \<longrightarrow> r = failure (message e)))"

text \<open>An object that was printed, and an attempt to print that raised.\<close>

definition printed :: "event \<Rightarrow> bool" where
  "printed ev = (case ev of (Print v, Inr a) \<Rightarrow> True | _ \<Rightarrow> False)"

definition print_failed :: "event \<Rightarrow> bool" where
  "print_failed ev = (case ev of (Print v, Inl e) \<Rightarrow> True | _ \<Rightarrow> False)"

text \<open>
  The last event is the writing of a result object, and nothing was written before; if
  any call before it raised, that object is the failure result with the message of the
  exception.
\<close>

definition result_written :: "event list \<Rightarrow> bool" where
  "result_written evs =
     (evs \<noteq> [] \<and> \<not> list_ex is_print (butlast evs) \<and>
      (case fst (last evs) of
         Print r \<Rightarrow>
           is_result r \<and> (\<forall>c e. (c, Inl e) \<in> set (butlast evs) \<longrightarrow> r = failure (message e))
       | _ \<Rightarrow> False))"

text \<open>The process ended normally and its last act printed a result object, the only
  object printed.\<close>

definition one_result_printed :: "(exc + unit) \<times> event list \<Rightarrow> bool" where
  "one_result_printed out =
     (case out of
        (Inr u, evs) \<Rightarrow> result_written evs \<and> printed (last evs)
      | (Inl e, evs) \<Rightarrow> False)"

text \<open>
  The ways in which a run ends with an exception that nobody caught, nothing having
  been printed: the exception raised before any call to the host; the exception raised
  by the import, the only call made; the exception raised by the writing of the result
  object, which holds text beyond ASCII.
\<close>

definition escapes_before_calls :: "(exc + unit) \<times> event list \<Rightarrow> bool" where
  "escapes_before_calls out = (case out of (Inl e, evs) \<Rightarrow> evs = [] | (Inr u, evs) \<Rightarrow> False)"

definition import_escapes :: "(exc + unit) \<times> event list \<Rightarrow> bool" where
  "import_escapes out =
     (case out of
        (Inl e, evs) \<Rightarrow> evs = [(Import ''xlwings'', Inl e)]
      | (Inr u, evs) \<Rightarrow> False)"

definition print_escapes :: "(exc + unit) \<times> event list \<Rightarrow> bool" where
  "print_escapes out =
     (case out of
        (Inl e, evs) \<Rightarrow>
          result_written evs \<and> snd (last evs) = Inl e \<and> \<not> list_ex printed evs \<and>
          (case fst (last evs) of Print r \<Rightarrow> \<not> ascii_only r | _ \<Rightarrow> False)
      | (Inr u, evs) \<Rightarrow> False)"

text \<open>The parameter bag is a dict whose keys are parameters of the handler registered
  under the operation.\<close>

definition accepts :: "string \<Rightarrow> pyval \<Rightarrow> bool" where
  "accepts opn ps = (case ps of
       PDict kvs \<Rightarrow> list_all (\<lambda>k. k \<in> set (op_parameters opn)) (map fst kvs)
     | _ \<Rightarrow> False)"

text \<open>Stand-ins for \<^verbatim>\<open>json.loads\<close> in concrete runs: one that rejects every text, and
  one that decodes every text to a bag with the key \<^verbatim>\<open>colour\<close>.\<close>

definition no_json :: "string \<Rightarrow> exc + pyval" where
  "no_json s = Inl (Exc False ''Expecting value'')"

definition colour_json :: "string \<Rightarrow> exc + pyval" where
  "colour_json s = Inr (PDict [(''colour'', PStr ''red'')])"





section \<open>Rules of the calculus\<close>

lemma sat_outcome: "sat m Q \<Longrightarrow> Q (fst (m tr)) (snd (m tr))"
  by (simp add: sat_def split: prod.splits)

lemma sat_weaken: "sat m P \<Longrightarrow> (\<And>r evs. P r evs \<Longrightarrow> Q r evs) \<Longrightarrow> sat m Q"
  by (auto simp: sat_def split: prod.splits)

lemma sat_ret: "Q (Inr x) [] \<Longrightarrow> sat (ret x) Q"
  by (simp add: sat_def ret_def)

lemma sat_raise: "Q (Inl e) [] \<Longrightarrow> sat (raise e) Q"
  by (simp add: sat_def raise_def)

lemma sat_perform: "(\<And>a. Q a [(c, a)]) \<Longrightarrow> sat (perform h c) Q"
  by (simp add: sat_def perform_def)

lemma sat_print_ascii: "Q (Inr ()) [(Print v, Inr PNone)] \<Longrightarrow> sat (print_ascii v) Q"
  by (simp add: sat_def print_ascii_def)

lemma sat_print_raw:
  "Q (Inr ()) [(Print v, Inr PNone)] \<Longrightarrow>
   (\<And>e. \<not> ascii_only v \<Longrightarrow> pe v = Some e \<Longrightarrow> Q (Inl e) [(Print v, Inl e)])
   \<Longrightarrow> sat (print_raw pe v) Q"
  by (simp add: sat_def print_raw_def split: option.splits)

lemma sat_bind:
  "sat m (\<lambda>r n. case r of Inl e \<Rightarrow> Q (Inl e) n
                          | Inr x \<Rightarrow> sat (f x) (\<lambda>r' n'. Q r' (n @ n')))
   \<Longrightarrow> sat (bind m f) Q"
  by (auto simp: sat_def bind_def split: prod.splits sum.splits)

lemma sat_try:
  "sat m (\<lambda>r n. case r of Inl e \<Rightarrow> sat (hdl e) (\<lambda>r' n'. Q r' (n @ n'))
                          | Inr x \<Rightarrow> Q (Inr x) n)
   \<Longrightarrow> sat (try_except m hdl) Q"
  by (auto simp: sat_def try_except_def split: prod.splits sum.splits)

lemma sat_if: "(b \<Longrightarrow> sat m1 Q) \<Longrightarrow> (\<not> b \<Longrightarrow> sat m2 Q) \<Longrightarrow> sat (if b then m1 else m2) Q"
  by simp

lemma guard_simps [simp]:
  "guard Q (Inl e) n = Q (Inr (failure (message e))) n"
  "guard Q (Inr x) n = Q (Inr x) n"
  by (simp_all add: guard_def)

lemma sat_catch_all: "sat m (guard Q) \<Longrightarrow> sat (catch_all m) Q"
  unfolding catch_all_def
  by (rule sat_try) (auto simp: sat_def ret_def guard_def split: sum.splits prod.splits)

lemma sat_bind_perform:
  "(\<And>e. Q (Inl e) [(c, Inl e)]) \<Longrightarrow> (\<And>x. sat (f x) (\<lambda>r n. Q r ((c, Inr x) # n)))
   \<Longrightarrow> sat (bind (perform h c) f) Q"
  by (rule sat_bind, rule sat_perform) (auto split: sum.splits)

lemma sat_bind_ret: "sat (f x) Q \<Longrightarrow> sat (bind (ret x) f) Q"
  by (rule sat_bind) (simp add: sat_ret)

lemma sat_bind_raise: "Q (Inl e) [] \<Longrightarrow> sat (bind (raise e) f) Q"
  by (rule sat_bind) (simp add: sat_raise)

lemma bind_assoc: "bind (bind m f) g = bind m (\<lambda>x. bind (f x) g)"
  by (auto simp: bind_def fun_eq_iff split: prod.splits sum.splits)

lemma sat_bind_bind: "sat (bind m (\<lambda>x. bind (f x) g)) Q \<Longrightarrow> sat (bind (bind m f) g) Q"
  by (simp add: bind_assoc)

lemma sat_bind_if:
  "(b \<Longrightarrow> sat (bind m1 f) Q) \<Longrightarrow> (\<not> b \<Longrightarrow> sat (bind m2 f) Q)
   \<Longrightarrow> sat (bind (if b then m1 else m2) f) Q"
  by simp

lemma sat_bind_weaken:
  "sat m P \<Longrightarrow>
   (\<And>r n. P r n \<Longrightarrow> (case r of Inl e \<Rightarrow> Q (Inl e) n
                                  | Inr x \<Rightarrow> sat (f x) (\<lambda>r' n'. Q r' (n @ n'))))
   \<Longrightarrow> sat (bind m f) Q"
  by (rule sat_bind) (erule sat_weaken)

lemma sat_bind_chart_types_get:
  "(\<And>t. sat (f t) Q) \<Longrightarrow> (\<And>e. Q (Inl e) []) \<Longrightarrow> sat (bind (chart_types_get ct) f) Q"
  by (rule sat_bind)
    (auto simp: chart_types_get_def intro!: sat_ret sat_raise split: pyval.splits)

lemma sat_bind_host_iter:
  assumes "\<And>xs. sat (f xs) (\<lambda>r n. Q r ((Iter v, Inr (PList xs)) # n))"
    and "\<And>e. Q (Inl e) [(Iter v, Inl e)]"
  shows "sat (bind (host_iter h v) f) Q"
proof (rule sat_bind)
  show "sat (host_iter h v) (\<lambda>r n. case r of Inl e \<Rightarrow> Q (Inl e) n
          | Inr x \<Rightarrow> sat (f x) (\<lambda>r' n'. Q r' (n @ n')))"
    using assms by (auto simp: sat_def host_iter_def split: sum.splits)
qed

lemma sat_bind_py_iter:
  assumes "\<And>xs. data_items v = Some xs \<Longrightarrow> sat (f xs) Q"
    and "\<And>xs. sat (f xs) (\<lambda>r n. Q r ((Iter v, Inr (PList xs)) # n))"
    and "\<And>e. Q (Inl e) []"
    and "\<And>e. Q (Inl e) [(Iter v, Inl e)]"
  shows "sat (bind (py_iter h v) f) Q"
proof (cases v)
  case (PObj n)
  show ?thesis
    unfolding py_iter_def PObj
    by (simp add: sat_bind_host_iter assms(2,4)[unfolded PObj])
qed (auto simp: py_iter_def data_items_def intro!: sat_bind_ret sat_bind_raise assms(1,3))

lemma sat_bind_star_args:
  assumes "\<And>xs. data_items v = Some xs \<Longrightarrow> sat (f xs) Q"
    and "\<And>xs. sat (f xs) (\<lambda>r n. Q r ((Iter v, Inr (PList xs)) # n))"
    and "\<And>e. Q (Inl e) []"
    and "\<And>e. Q (Inl e) [(Iter v, Inl e)]"
  shows "sat (bind (star_args h cn g v) f) Q"
proof (cases v)
  case (PObj n)
  show ?thesis
    unfolding star_args_def PObj
    by (simp add: sat_bind_host_iter assms(2,4)[unfolded PObj])
qed (auto simp: star_args_def data_items_def intro!: sat_bind_ret sat_bind_raise assms(1,3))

lemmas prim_defs = getattr_def setattr_def invoke_def import_xlwings_def books_active_def
  select_sheet_def

lemmas exec_rules = sat_catch_all sat_bind_perform sat_bind_ret sat_bind_raise sat_bind_bind
  sat_bind_if sat_bind_chart_types_get sat_bind_py_iter sat_bind_star_args sat_if sat_ret
  sat_raise sat_perform

lemma is_success_simps [simp]:
  "is_success (PDict ((''success'', PBool b) # kvs)) = b"
  "is_success (failure m) = False"
  by (simp_all add: is_success_def field_def failure_def)

lemma is_result_simps [simp]:
  "is_result (PDict ((''success'', PBool True) # kvs))"
  "is_result (failure m)"
  by (simp_all add: is_result_def is_success_def field_def failure_def)

lemmas run_defs = bind_def ret_def raise_def try_except_def perform_def print_ascii_def
  print_raw_def host_iter_def items_def

section \<open>Loops and events\<close>

lemma returned_simps [simp]: "returned (c, Inr x)" "\<not> returned (c, Inl e)"
  by (simp_all add: returned_def)

lemma raises_last_single [simp]: "raises_last e [(c, a)] = (a = Inl e)"
  by (auto simp: raises_last_def)

lemma raises_last_Cons:
  "returned ev \<Longrightarrow> raises_last e evs \<Longrightarrow> raises_last e (ev # evs)"
  by (cases evs) (auto simp: raises_last_def)

lemma raises_last_append:
  "list_all returned n \<Longrightarrow> raises_last e evs \<Longrightarrow> raises_last e (n @ evs)"
  by (induction n) (auto intro: raises_last_Cons)

lemma returned_no_raise [simp]: "list_all returned evs \<Longrightarrow> (c, Inl e) \<notin> set evs"
  by (induction evs) (auto simp: returned_def)

lemma raises_last_mem: "raises_last e evs \<Longrightarrow> (c, Inl e') \<in> set evs \<Longrightarrow> e' = e"
proof -
  assume a: "raises_last e evs" and m: "(c, Inl e') \<in> set evs"
  from a have "evs = butlast evs @ [last evs]"
    by (simp add: raises_last_def)
  with m have "(c, Inl e') \<in> set (butlast evs) \<or> (c, Inl e') = last evs"
    by (metis Un_iff empty_iff insert_iff list.set(1) list.simps(15) set_append)
  moreover have "(c, Inl e') \<notin> set (butlast evs)"
    using a by (simp add: raises_last_def)
  ultimately have "snd (last evs) = Inl e'"
    by (metis snd_conv)
  with a show "e' = e"
    by (simp add: raises_last_def)
qed

lemma sheet_names_spec:
  "sat (sheet_names h wss) (\<lambda>r evs. list_all is_read evs \<and>
      (case r of Inr ns \<Rightarrow> length ns = length wss \<and> evs = name_events wss ns
               | Inl e \<Rightarrow> raises_last e evs))"
proof (induction wss)
  case Nil
  show ?case by (simp add: sat_ret name_events_def)
next
  case (Cons w wss)
  show ?case
    unfolding sheet_names.simps getattr_def
    apply (rule sat_bind_perform)
     apply (simp add: is_read_def)
    apply (rule sat_bind_weaken[OF Cons.IH])
    apply (auto split: sum.splits intro!: sat_ret raises_last_Cons
        simp: name_events_def is_read_def returned_def)
    done
qed

lemma name_events_returned [simp]: "list_all returned (name_events wss ns)"
  by (auto simp: name_events_def list_all_iff returned_def)

lemma sat_bind_sheet_names:
  assumes "\<And>ns. length ns = length wss \<Longrightarrow> list_all is_read (name_events wss ns)
             \<Longrightarrow> sat (f ns) (\<lambda>r n. Q r (name_events wss ns @ n))"
    and "\<And>e evs. list_all is_read evs \<Longrightarrow> raises_last e evs \<Longrightarrow> Q (Inl e) evs"
  shows "sat (bind (sheet_names h wss) f) Q"
  by (rule sat_bind_weaken[OF sheet_names_spec]) (auto split: sum.splits intro: assms)

lemma reads_not_close [simp]: "list_all is_read evs \<Longrightarrow> \<not> list_ex ok_close evs"
  by (induction evs) (auto simp: is_read_def ok_close_def split: call.splits)

lemma ok_close_simps [simp]:
  "ok_close (Invoke ob m as kw, Inr a) = (m = ''close'')"
  "ok_close (c, Inl e) = False"
  "ok_close (GetAttr ob nm, b) = False"
  "ok_close (SetAttr ob nm v, b) = False"
  "ok_close (GetItem ob k, b) = False"
  "ok_close (Iter ob, b) = False"
  "ok_close (Call ob vs, b) = False"
  "ok_close (Import s, b) = False"
  by (auto simp: ok_close_def split: call.splits sum.splits)

lemma resolved_path [simp]:
  "truthy fp \<Longrightarrow> resolved fp wb ((Import ''xlwings'', Inr xw) # (Invoke xw ''Book'' [fp] [], a) # evs)
     = (a = Inr wb)"
  by (auto simp: resolved_def)

lemma resolved_active [simp]:
  "\<not> truthy fp \<Longrightarrow> resolved fp wb ((Import ''xlwings'', Inr xw) # (GetAttr xw ''books'', Inr bs) #
       (GetAttr bs ''active'', a) # evs) = (a = Inr wb)"
  by (auto simp: resolved_def)

section \<open>Chart types\<close>

lemma map_prog_ret: "map_prog g (ret x) = ret (g x)"
  by (simp add: map_prog_def ret_def)

lemma map_prog_bind: "map_prog g (bind m f) = bind m (\<lambda>x. map_prog g (f x))"
  by (auto simp: map_prog_def bind_def fun_eq_iff split: prod.splits sum.splits)

lemma map_prog_try:
  "map_prog g (try_except m hdl) = try_except (map_prog g m) (\<lambda>e. map_prog g (hdl e))"
  by (auto simp: map_prog_def try_except_def fun_eq_iff split: prod.splits sum.splits)

lemma map_prog_if:
  "map_prog g (if b then m1 else m2) = (if b then map_prog g m1 else map_prog g m2)"
  by simp

lemma chart_types_get_unknown:
  "s \<notin> fst ` set chart_types \<Longrightarrow> chart_types_get (PStr s) = ret ''line''"
  by (auto simp: chart_types_get_def chart_types_def)

lemma chart_types_get_line: "chart_types_get (PStr ''line'') = ret ''line''"
  by (simp add: chart_types_get_def chart_types_def)

lemma create_chart_echo:
  assumes "s \<notin> fst ` set chart_types"
  shows "create_chart h sf fp sh dr (PStr s) ti pos =
         map_prog (echo_chart_type (PStr s)) (create_chart h sf fp sh dr (PStr ''line'') ti pos)"
  unfolding create_chart_def catch_all_def Let_def
  by (simp add: map_prog_bind map_prog_try map_prog_ret map_prog_if
        chart_types_get_unknown[OF assms] chart_types_get_line
        echo_chart_type_def is_success_def field_def failure_def cong del: if_weak_cong)

lemma create_chart_charted:
  assumes "s \<notin> fst ` set chart_types"
  shows "sat (create_chart h sf fp sh dr (PStr s) ti pos)
           (\<lambda>r evs. charted_as_line s fp (r, evs))"
  apply (simp add: create_chart_def chart_types_get_unknown[OF assms] prim_defs Let_def
      cong del: if_weak_cong)
  apply (intro exec_rules)
  apply (simp_all add: charted_as_line_def completes_def sets_no_type_but_def type_set_def
      field_def)
  done

text \<open>
  Claim C1 says that \<^verbatim>\<open>create_chart\<close> with a chart type that is not one of the six names
  succeeds and that its result reports the type as "line". The result echoes the
  \<^verbatim>\<open>chart_type\<close> parameter, not the looked-up type: on a host that accepts every call, a
  request for "donut" is answered with \<^verbatim>\<open>chart_type\<close> "donut".
\<close>

theorem create_chart_unknown_type_reported_as_given:
  "fst (create_chart ok_host obj_str PNone PNone (PStr ''A1:B10'') (PStr ''donut'') (PStr [])
         (PStr ''E1'') []) =
     Inr (PDict [
       (''success'', PBool True),
       (''message'', PStr (msg_chart @ ''obj!E1'')),
       (''chart_type'', PStr ''donut''),
       (''data_range'', PStr ''A1:B10'')])"
  by (simp add: create_chart_def prim_defs catch_all_def run_defs ok_host_def chart_types_get_def
        chart_types_def py_str_def obj_str_def)

text \<open>
  Claim C1, amended: with a chart type string \<open>s\<close> that is not one of the six names,
  the only chart type that \<^verbatim>\<open>create_chart\<close> sets on the host is "line"; the request
  succeeds whenever every call to the host returns and a document is resolved; a success
  result comes after "line" was set and carries \<open>s\<close> itself, not "line", in its
  \<^verbatim>\<open>chart_type\<close> field. The run makes exactly the calls, with the same answers, that
  the run for "line" makes, and its outcome is the outcome for "line" except for that
  field.
\<close>

theorem create_chart_unknown_type_as_line:
  assumes "s \<notin> fst ` set chart_types"
  shows "charted_as_line s fp (create_chart h sf fp sh dr (PStr s) ti pos tr)
       \<and> snd (create_chart h sf fp sh dr (PStr s) ti pos tr) =
           snd (create_chart h sf fp sh dr (PStr ''line'') ti pos tr)
       \<and> fst (create_chart h sf fp sh dr (PStr s) ti pos tr) =
           map_sum id (echo_chart_type (PStr s))
             (fst (create_chart h sf fp sh dr (PStr ''line'') ti pos tr))"
proof -
  have "charted_as_line s fp (create_chart h sf fp sh dr (PStr s) ti pos tr)"
    using sat_outcome[OF create_chart_charted[OF assms]] by simp
  then show ?thesis
    by (simp add: create_chart_echo[OF assms] map_prog_def split: prod.splits)
qed

theorem create_chart_unknown_type_as_line_witness:
  "''donut'' \<notin> fst ` set chart_types
   \<and> charted_as_line ''donut'' PNone
        (create_chart ok_host obj_str PNone PNone (PStr ''A1:B10'') (PStr ''donut'') (PStr [])
           (PStr ''E1'') [])
   \<and> create_chart ok_host obj_str PNone PNone (PStr ''A1:B10'') (PStr ''donut'') (PStr [])
        (PStr ''E1'') [] =
       (Inr (PDict [
          (''success'', PBool True),
          (''message'', PStr (msg_chart @ ''obj!E1'')),
          (''chart_type'', PStr ''donut''),
          (''data_range'', PStr ''A1:B10'')]),
        [(Import ''xlwings'', Inr (PObj 1)),
         (GetAttr (PObj 1) ''books'', Inr (PObj 1)),
         (GetAttr (PObj 1) ''active'', Inr (PObj 1)),
         (GetAttr (PObj 1) ''sheets'', Inr (PObj 1)),
         (GetAttr (PObj 1) ''active'', Inr (PObj 1)),
         (GetAttr (PObj 1) ''charts'', Inr (PObj 1)),
         (Invoke (PObj 1) ''range'' [PStr ''E1''] [], Inr (PObj 1)),
         (GetAttr (PObj 1) ''left'', Inr (PObj 1)),
         (Invoke (PObj 1) ''range'' [PStr ''E1''] [], Inr (PObj 1)),
         (GetAttr (PObj 1) ''top'', Inr (PObj 1)),
         (Invoke (PObj 1) ''add'' [] [(''left'', PObj 1), (''top'', PObj 1)], Inr (PObj 1)),
         (Invoke (PObj 1) ''range'' [PStr ''A1:B10''] [], Inr (PObj 1)),
         (Invoke (PObj 1) ''set_source_data'' [PObj 1] [], Inr (PObj 1)),
         (SetAttr (PObj 1) ''chart_type'' (PStr ''line''), Inr (PObj 1)),
         (Invoke (PObj 1) ''save'' [] [], Inr (PObj 1)),
         (GetAttr (PObj 1) ''name'', Inr (PObj 1))])
   \<and> snd (create_chart ok_host obj_str PNone PNone (PStr ''A1:B10'') (PStr ''donut'') (PStr [])
          (PStr ''E1'') []) =
     snd (create_chart ok_host obj_str PNone PNone (PStr ''A1:B10'') (PStr ''line'') (PStr [])
          (PStr ''E1'') [])
   \<and> fst (create_chart ok_host obj_str PNone PNone (PStr ''A1:B10'') (PStr ''line'') (PStr [])
          (PStr ''E1'') []) =
       Inr (PDict [
          (''success'', PBool True),
          (''message'', PStr (msg_chart @ ''obj!E1'')),
          (''chart_type'', PStr ''line''),
          (''data_range'', PStr ''A1:B10'')])"
  using create_chart_unknown_type_as_line [where s = "''donut''" and h = ok_host
      and sf = obj_str and fp = PNone and sh = PNone and dr = "PStr ''A1:B10''"
      and ti = "PStr []" and pos = "PStr ''E1''" and tr = "[]"]
  by (simp add: create_chart_def prim_defs catch_all_def run_defs ok_host_def
        chart_types_get_def chart_types_def py_str_def obj_str_def charted_as_line_def
        completes_def sets_no_type_but_def type_set_def field_def echo_chart_type_def
        is_success_def)
section \<open>Closing and saving the document\<close>

lemma read_range_closes: assumes "truthy fp"
  shows "sat (read_range h sf fp sheet ra av) (\<lambda>r evs. closes_only_on_success fp (r, evs))"
  using assms
  apply (simp add: read_range_def prim_defs Let_def cong del: if_weak_cong)
  apply (intro exec_rules)
  apply (simp_all add: closes_only_on_success_def)
  done

lemma write_range_closes: assumes "truthy fp"
  shows "sat (write_range h sf fp sheet ra data save) (\<lambda>r evs. closes_only_on_success fp (r, evs)
     \<and> (truthy save \<longrightarrow> saved_before_close (r, evs)))"
  using assms
  apply (simp add: write_range_def prim_defs Let_def cong del: if_weak_cong)
  apply (intro exec_rules)
  apply (simp_all add: closes_only_on_success_def saved_before_close_def)
  done

lemma run_macro_closes: assumes "truthy fp"
  shows "sat (run_macro h sf cn fp mn args) (\<lambda>r evs. closes_only_on_success fp (r, evs))"
  using assms
  apply (simp add: run_macro_def prim_defs Let_def cong del: if_weak_cong)
  apply (intro exec_rules)
  apply (simp_all add: closes_only_on_success_def)
  done

lemma list_sheets_closes: assumes "truthy fp"
  shows "sat (list_sheets h fp) (\<lambda>r evs. closes_only_on_success fp (r, evs))"
  using assms
  apply (simp add: list_sheets_def prim_defs Let_def cong del: if_weak_cong)
  apply (intro exec_rules sat_bind_sheet_names)
  apply (simp_all add: closes_only_on_success_def butlast_append)
  done

lemma create_chart_closes: assumes "truthy fp"
  shows "sat (create_chart h sf fp sheet dr ct ti pos) (\<lambda>r evs. closes_only_on_success fp (r, evs)
     \<and> saved_before_close (r, evs))"
  using assms
  apply (simp add: create_chart_def prim_defs Let_def cong del: if_weak_cong)
  apply (intro exec_rules)
  apply (simp_all add: closes_only_on_success_def saved_before_close_def)
  done

lemma write_range_no_save: assumes "\<not> truthy save"
  shows "sat (write_range h sf fp sheet ra data save) (\<lambda>r evs. \<not> list_ex is_save_call evs)"
  using assms
  apply (simp add: write_range_def prim_defs Let_def cong del: if_weak_cong)
  apply (intro exec_rules)
  apply (simp_all add: is_save_call_def)
  done

lemma run_macro_no_save:
  "sat (run_macro h sf cn fp mn args) (\<lambda>r evs. \<not> list_ex is_save_call evs)"
  apply (simp add: run_macro_def prim_defs Let_def cong del: if_weak_cong)
  apply (intro exec_rules)
  apply (simp_all add: is_save_call_def)
  done

text \<open>
  Claim C4 says that a handler called with an explicit file path saves the document
  before closing it when the operation is a mutating one. \<^verbatim>\<open>write\<close> saves only under
  its save flag: with \<^verbatim>\<open>save=false\<close> it assigns the value and closes the document it
  opened without any \<^verbatim>\<open>save()\<close>.
\<close>

theorem write_without_save_closes_unsaved:
  "write_range ok_host obj_str (PStr ''book.xlsx'') PNone (PStr ''A1'') (PInt 7) (PBool False) [] =
     (Inr (PDict [
        (''success'', PBool True),
        (''message'', PStr (msg_written @ ''obj!A1'')),
        (''workbook'', PObj 1),
        (''sheet'', PObj 1)]),
      [(Import ''xlwings'', Inr (PObj 1)),
       (Invoke (PObj 1) ''Book'' [PStr ''book.xlsx''] [], Inr (PObj 1)),
       (GetAttr (PObj 1) ''sheets'', Inr (PObj 1)),
       (GetAttr (PObj 1) ''active'', Inr (PObj 1)),
       (Invoke (PObj 1) ''range'' [PStr ''A1''] [], Inr (PObj 1)),
       (SetAttr (PObj 1) ''value'' (PInt 7), Inr (PObj 1)),
       (GetAttr (PObj 1) ''name'', Inr (PObj 1)),
       (GetAttr (PObj 1) ''name'', Inr (PObj 1)),
       (GetAttr (PObj 1) ''name'', Inr (PObj 1)),
       (Invoke (PObj 1) ''close'' [] [], Inr (PObj 1))])
   \<and> \<not> saved_before_close
        (write_range ok_host obj_str (PStr ''book.xlsx'') PNone (PStr ''A1'') (PInt 7)
           (PBool False) [])"
  by (simp add: write_range_def prim_defs catch_all_def run_defs ok_host_def py_str_def
        obj_str_def saved_before_close_def)

text \<open>
  Claim C4, amended: a handler (\<^verbatim>\<open>read\<close>, \<^verbatim>\<open>write\<close>, \<^verbatim>\<open>run_macro\<close>, \<^verbatim>\<open>list_sheets\<close>,
  \<^verbatim>\<open>create_chart\<close>) called with an explicit file path closes the document it opened as
  its last call when it returns a success result, and no \<^verbatim>\<open>close()\<close> returns on any
  other path (a failure result, or the import raising). \<^verbatim>\<open>create_chart\<close> always, and
  \<^verbatim>\<open>write\<close> when its save flag is true, save that document before the close;
  \<^verbatim>\<open>write\<close> with a false save flag and \<^verbatim>\<open>run_macro\<close> make no \<^verbatim>\<open>save()\<close> call.
\<close>

theorem bridge_owned_document_closed_on_success_only:
  assumes "truthy fp"
  shows "closes_only_on_success fp (read_range h sf fp sheet ra av tr)
       \<and> closes_only_on_success fp (write_range h sf fp sheet ra data save tr)
       \<and> closes_only_on_success fp (run_macro h sf cn fp mn args tr)
       \<and> closes_only_on_success fp (list_sheets h fp tr)
       \<and> closes_only_on_success fp (create_chart h sf fp sheet dr ct ti pos tr)
       \<and> (truthy save \<longrightarrow> saved_before_close (write_range h sf fp sheet ra data save tr))
       \<and> saved_before_close (create_chart h sf fp sheet dr ct ti pos tr)
       \<and> (\<not> truthy save \<longrightarrow>
            \<not> list_ex is_save_call (snd (write_range h sf fp sheet ra data save tr)))
       \<and> \<not> list_ex is_save_call (snd (run_macro h sf cn fp mn args tr))"
  using sat_outcome[OF read_range_closes[OF assms], of h sf sheet ra av tr]
    sat_outcome[OF write_range_no_save, of save h sf fp sheet ra data tr]
    sat_outcome[OF run_macro_no_save, of h sf cn fp mn args tr]
    sat_outcome[OF write_range_closes[OF assms], of h sf sheet ra data save tr]
    sat_outcome[OF run_macro_closes[OF assms], of h sf cn mn args tr]
    sat_outcome[OF list_sheets_closes[OF assms], of h tr]
    sat_outcome[OF create_chart_closes[OF assms], of h sf sheet dr ct ti pos tr]
  by simp


theorem bridge_owned_document_closed_on_success_only_witness:
  "truthy (PStr ''book.xlsx'')
   \<and> closes_only_on_success (PStr ''book.xlsx'')
        (read_range ok_host obj_str (PStr ''book.xlsx'') PNone (PStr ''A1'') (PBool True) [])
   \<and> closes_only_on_success (PStr ''book.xlsx'')
        (write_range ok_host obj_str (PStr ''book.xlsx'') PNone (PStr ''A1'') (PInt 7) (PBool True) [])
   \<and> closes_only_on_success (PStr ''book.xlsx'')
        (run_macro ok_host obj_str macro_str (PStr ''book.xlsx'') (PStr ''Refresh'') PNone [])
   \<and> closes_only_on_success (PStr ''book.xlsx'') (list_sheets ok_host (PStr ''book.xlsx'') [])
   \<and> closes_only_on_success (PStr ''book.xlsx'')
        (create_chart ok_host obj_str (PStr ''book.xlsx'') PNone (PStr ''A1:B10'') (PStr ''bar'')
           (PStr ''Sales'') (PStr ''E1'') [])
   \<and> saved_before_close
        (write_range ok_host obj_str (PStr ''book.xlsx'') PNone (PStr ''A1'') (PInt 7) (PBool True) [])
   \<and> saved_before_close
        (create_chart ok_host obj_str (PStr ''book.xlsx'') PNone (PStr ''A1:B10'') (PStr ''bar'')
           (PStr ''Sales'') (PStr ''E1'') [])
   \<and> last (snd (write_range ok_host obj_str (PStr ''book.xlsx'') PNone (PStr ''A1'') (PInt 7)
          (PBool True) [])) = (Invoke (PObj 1) ''close'' [] [], Inr (PObj 1))
   \<and> closes_only_on_success (PStr ''book.xlsx'')
        (run_macro no_macro_host obj_str macro_str (PStr ''book.xlsx'') (PStr ''Missing'') PNone [])
   \<and> run_macro no_macro_host obj_str macro_str (PStr ''book.xlsx'') (PStr ''Missing'') PNone [] =
       (Inr (failure ''Macro not found: Missing''),
        [(Import ''xlwings'', Inr (PObj 1)),
         (Invoke (PObj 1) ''Book'' [PStr ''book.xlsx''] [], Inr (PObj 1)),
         (Invoke (PObj 1) ''macro'' [PStr ''Missing''] [], Inr (PObj 1)),
         (Call (PObj 1) [], Inl (Exc False ''Macro not found: Missing''))])"
  using bridge_owned_document_closed_on_success_only [where fp = "PStr ''book.xlsx''"
      and h = ok_host and sf = obj_str and cn = macro_str and sheet = PNone
      and ra = "PStr ''A1''" and av = "PBool True" and data = "PInt 7" and save = "PBool True"
      and mn = "PStr ''Refresh''" and args = PNone and dr = "PStr ''A1:B10''"
      and ct = "PStr ''bar''" and ti = "PStr ''Sales''" and pos = "PStr ''E1''" and tr = "[]"]
    bridge_owned_document_closed_on_success_only [where fp = "PStr ''book.xlsx''"
      and h = no_macro_host and sf = obj_str and cn = macro_str and sheet = PNone
      and ra = "PStr ''A1''" and av = "PBool True" and data = "PInt 7" and save = "PBool True"
      and mn = "PStr ''Missing''" and args = PNone and dr = "PStr ''A1:B10''"
      and ct = "PStr ''bar''" and ti = "PStr ''Sales''" and pos = "PStr ''E1''" and tr = "[]"]
  by (simp add: write_range_def run_macro_def prim_defs catch_all_def run_defs ok_host_def
        no_macro_host_def)

lemma write_range_saves: assumes "truthy save"
  shows "sat (write_range h sf fp sheet ra data save) (\<lambda>r evs. saved_after_write fp data (r, evs))"
  using assms
  apply (simp add: write_range_def prim_defs Let_def cong del: if_weak_cong)
  apply (intro exec_rules)
  apply (simp_all add: saved_after_write_def wrote_def saved_def)
  done

lemma write_range_completes:
  "sat (write_range h sf fp sheet ra data save) (\<lambda>r evs. completes fp (r, evs))"
  apply (simp add: write_range_def prim_defs Let_def cong del: if_weak_cong)
  apply (intro exec_rules)
  apply (simp_all add: completes_def)
  done

lemma call_write_range_default:
  assumes "set (map fst kvs) \<subseteq> set (op_parameters ''write'')"
  shows "call_write_range h sf (PDict kvs) =
         write_range h sf (arg (map_of kvs) ''file_path'' PNone) (arg (map_of kvs) ''sheet'' PNone)
           (arg (map_of kvs) ''range_addr'' (PStr ''A1'')) (arg (map_of kvs) ''data'' PNone)
           (arg (map_of kvs) ''save'' (PBool True))"
proof -
  have "filter (\<lambda>k. k \<notin> set (op_parameters ''write'')) (map fst kvs) = []"
    using assms by (auto simp: filter_empty_conv)
  then show ?thesis
    by (simp add: call_write_range_def bind_kwargs_def bind_def ret_def fun_eq_iff
          split: prod.splits sum.splits)
qed

text \<open>
  Claim C5: \<^verbatim>\<open>write\<close> with a false save flag makes no \<^verbatim>\<open>save()\<close> call at all, whatever
  the outcome. With a true save flag a success result means that the resolved document
  was saved right after the value was assigned to the range, and the write does succeed
  whenever every call to the host returns and a document is resolved. A parameter bag
  without the key \<^verbatim>\<open>save\<close> is a call with \<^verbatim>\<open>save=True\<close>. The run after the theorem
  shows the assignment, the save that follows it and the success result.
\<close>

theorem write_saves_by_flag:
  "(\<not> truthy save \<longrightarrow>
      \<not> list_ex is_save_call (snd (write_range h sf fp sheet ra data save tr)))
   \<and> (truthy save \<longrightarrow> saved_after_write fp data (write_range h sf fp sheet ra data save tr))
   \<and> completes fp (write_range h sf fp sheet ra data save tr)
   \<and> (set (map fst kvs) \<subseteq> set (op_parameters ''write'') \<and> ''save'' \<notin> set (map fst kvs) \<longrightarrow>
        call_write_range h sf (PDict kvs) tr =
        write_range h sf (arg (map_of kvs) ''file_path'' PNone) (arg (map_of kvs) ''sheet'' PNone)
          (arg (map_of kvs) ''range_addr'' (PStr ''A1'')) (arg (map_of kvs) ''data'' PNone)
          (PBool True) tr)"
proof (intro conjI impI)
  assume "\<not> truthy save"
  from sat_outcome[OF write_range_no_save[OF this]]
  show "\<not> list_ex is_save_call (snd (write_range h sf fp sheet ra data save tr))" .
next
  assume "truthy save"
  from sat_outcome[OF write_range_saves[OF this]]
  show "saved_after_write fp data (write_range h sf fp sheet ra data save tr)"
    by simp
next
  from sat_outcome[OF write_range_completes]
  show "completes fp (write_range h sf fp sheet ra data save tr)"
    by simp
next
  assume a: "set (map fst kvs) \<subseteq> set (op_parameters ''write'') \<and> ''save'' \<notin> set (map fst kvs)"
  then have "map_of kvs ''save'' = None"
    by (simp add: map_of_eq_None_iff)
  then have "arg (map_of kvs) ''save'' (PBool True) = PBool True"
    by (simp add: arg_def)
  with a show "call_write_range h sf (PDict kvs) tr =
        write_range h sf (arg (map_of kvs) ''file_path'' PNone) (arg (map_of kvs) ''sheet'' PNone)
          (arg (map_of kvs) ''range_addr'' (PStr ''A1'')) (arg (map_of kvs) ''data'' PNone)
          (PBool True) tr"
    by (simp add: call_write_range_default)
qed

theorem write_saves_by_flag_witness:
  "\<not> truthy (PBool False)
   \<and> write_range ok_host obj_str (PStr ''book.xlsx'') PNone (PStr ''A1'') (PInt 7) (PBool False) [] =
      (Inr (PDict [
         (''success'', PBool True),
         (''message'', PStr (msg_written @ ''obj!A1'')),
         (''workbook'', PObj 1),
         (''sheet'', PObj 1)]),
       [(Import ''xlwings'', Inr (PObj 1)),
        (Invoke (PObj 1) ''Book'' [PStr ''book.xlsx''] [], Inr (PObj 1)),
        (GetAttr (PObj 1) ''sheets'', Inr (PObj 1)),
        (GetAttr (PObj 1) ''active'', Inr (PObj 1)),
        (Invoke (PObj 1) ''range'' [PStr ''A1''] [], Inr (PObj 1)),
        (SetAttr (PObj 1) ''value'' (PInt 7), Inr (PObj 1)),
        (GetAttr (PObj 1) ''name'', Inr (PObj 1)),
        (GetAttr (PObj 1) ''name'', Inr (PObj 1)),
        (GetAttr (PObj 1) ''name'', Inr (PObj 1)),
        (Invoke (PObj 1) ''close'' [] [], Inr (PObj 1))])
   \<and> \<not> list_ex is_save_call
        (snd (write_range ok_host obj_str (PStr ''book.xlsx'') PNone (PStr ''A1'') (PInt 7)
           (PBool False) []))
   \<and> truthy (PBool True)
   \<and> write_range ok_host obj_str (PStr ''book.xlsx'') PNone (PStr ''A1'') (PInt 7) (PBool True) [] =
      (Inr (PDict [
         (''success'', PBool True),
         (''message'', PStr (msg_written @ ''obj!A1'')),
         (''workbook'', PObj 1),
         (''sheet'', PObj 1)]),
       [(Import ''xlwings'', Inr (PObj 1)),
        (Invoke (PObj 1) ''Book'' [PStr ''book.xlsx''] [], Inr (PObj 1)),
        (GetAttr (PObj 1) ''sheets'', Inr (PObj 1)),
        (GetAttr (PObj 1) ''active'', Inr (PObj 1)),
        (Invoke (PObj 1) ''range'' [PStr ''A1''] [], Inr (PObj 1)),
        (SetAttr (PObj 1) ''value'' (PInt 7), Inr (PObj 1)),
        (Invoke (PObj 1) ''save'' [] [], Inr (PObj 1)),
        (GetAttr (PObj 1) ''name'', Inr (PObj 1)),
        (GetAttr (PObj 1) ''name'', Inr (PObj 1)),
        (GetAttr (PObj 1) ''name'', Inr (PObj 1)),
        (Invoke (PObj 1) ''close'' [] [], Inr (PObj 1))])
   \<and> saved_after_write (PStr ''book.xlsx'') (PInt 7)
        (write_range ok_host obj_str (PStr ''book.xlsx'') PNone (PStr ''A1'') (PInt 7)
           (PBool True) [])
   \<and> followed_by (wrote (PInt 7)) (saved (PObj 1))
        (snd (write_range ok_host obj_str (PStr ''book.xlsx'') PNone (PStr ''A1'') (PInt 7)
           (PBool True) []))
   \<and> completes (PStr ''book.xlsx'')
        (write_range ok_host obj_str (PStr ''book.xlsx'') PNone (PStr ''A1'') (PInt 7)
           (PBool True) [])
   \<and> set (map fst [(''data'', PInt 7)]) \<subseteq> set (op_parameters ''write'')
   \<and> ''save'' \<notin> set (map fst [(''data'', PInt 7)])
   \<and> call_write_range ok_host obj_str (PDict [(''data'', PInt 7)]) [] =
       write_range ok_host obj_str PNone PNone (PStr ''A1'') (PInt 7) (PBool True) []"
  using write_saves_by_flag [where save = "PBool False" and h = ok_host and sf = obj_str
      and fp = "PStr ''book.xlsx''" and sheet = PNone and ra = "PStr ''A1''"
      and data = "PInt 7" and tr = "[]" and kvs = "[(''data'', PInt 7)]"]
    write_saves_by_flag [where save = "PBool True" and h = ok_host and sf = obj_str
      and fp = "PStr ''book.xlsx''" and sheet = PNone and ra = "PStr ''A1''"
      and data = "PInt 7" and tr = "[]" and kvs = "[(''data'', PInt 7)]"]
  by (simp add: op_parameters_def arg_def write_range_def prim_defs catch_all_def run_defs
        ok_host_def py_str_def obj_str_def is_save_call_def saved_after_write_def
        completes_def wrote_def saved_def resolved_def call_write_range_def bind_kwargs_def)

lemma create_chart_saves:
  "sat (create_chart h sf fp sheet dr ct ti pos) (\<lambda>r evs. saves_resolved fp (r, evs))"
  apply (simp add: create_chart_def prim_defs Let_def cong del: if_weak_cong)
  apply (intro exec_rules)
  apply (simp_all add: saves_resolved_def)
  done

text \<open>
  Claim C10: every \<^verbatim>\<open>create_chart\<close> that returns a success result has saved the
  resolved document, whether it was opened from a path or was the active document of the
  host; \<^verbatim>\<open>write\<close> with a false save flag makes no \<^verbatim>\<open>save()\<close> call.
\<close>

theorem create_chart_saves_always:
  "saves_resolved fp (create_chart h sf fp sheet dr ct ti pos tr)
   \<and> (\<not> truthy save \<longrightarrow>
        \<not> list_ex is_save_call (snd (write_range h sf fp' sheet' ra data save tr')))"
proof (intro conjI impI)
  show "saves_resolved fp (create_chart h sf fp sheet dr ct ti pos tr)"
    using sat_outcome[OF create_chart_saves] by simp
next
  assume "\<not> truthy save"
  from sat_outcome[OF write_range_no_save[OF this]]
  show "\<not> list_ex is_save_call (snd (write_range h sf fp' sheet' ra data save tr'))" .
qed

theorem create_chart_saves_always_witness:
  "saves_resolved PNone
     (create_chart ok_host obj_str PNone PNone (PStr ''A1:B10'') (PStr ''bar'') (PStr ''Sales'')
        (PStr ''E1'') [])
   \<and> list_ex is_save_call
        (snd (create_chart ok_host obj_str PNone PNone (PStr ''A1:B10'') (PStr ''bar'')
           (PStr ''Sales'') (PStr ''E1'') []))
   \<and> \<not> truthy (PBool False)
   \<and> \<not> list_ex is_save_call
        (snd (write_range ok_host obj_str PNone PNone (PStr ''A1'') (PInt 7) (PBool False) []))"
  using create_chart_saves_always [where fp = PNone and h = ok_host and sf = obj_str
      and sheet = PNone and dr = "PStr ''A1:B10''" and ct = "PStr ''bar''"
      and ti = "PStr ''Sales''" and pos = "PStr ''E1''" and tr = "[]" and save = "PBool False"
      and fp' = PNone and sheet' = PNone and ra = "PStr ''A1''" and data = "PInt 7"
      and tr' = "[]"]
  by (simp add: create_chart_def prim_defs catch_all_def run_defs ok_host_def
        chart_types_get_def chart_types_def is_save_call_def)

section \<open>No open document\<close>

lemma reads_not_print [simp]: "list_all is_read evs \<Longrightarrow> \<not> list_ex is_print evs"
  by (induction evs) (auto simp: is_read_def is_print_def split: call.splits)

lemma calm_bind:
  assumes "sat m calm" and "\<And>x. sat (f x) calm"
  shows "sat (bind m f) calm"
  by (rule sat_bind_weaken[OF assms(1)])
    (auto split: sum.splits simp: calm_def intro!: sat_weaken[OF assms(2)] raises_last_append)

lemma calm_getattr: "sat (getattr h ob a) calm"
  unfolding getattr_def
  by (rule sat_perform) (auto simp: calm_def is_read_def returned_def split: sum.splits)

lemma calm_ret: "sat (ret x) calm"
  by (rule sat_ret) (simp add: calm_def)

lemma calm_py_bool: "sat (py_bool h v) calm"
proof (cases v)
  case (PObj n)
  have "sat (perform h (Bool (PObj n))) calm"
    by (rule sat_perform) (auto simp: calm_def is_read_def returned_def split: sum.splits)
  then show ?thesis
    unfolding py_bool_def PObj by (auto intro!: calm_bind calm_ret)
qed (simp_all add: py_bool_def calm_ret)

lemma sheet_info_calm: "sat (sheet_info h ws) calm"
  unfolding sheet_info_def
  by (intro calm_bind calm_getattr calm_py_bool calm_ret sat_if)

lemma sheets_info_calm: "sat (sheets_info h wss) calm"
  by (induction wss) (auto intro!: calm_bind calm_ret sheet_info_calm)

lemma sat_bind_sheets_info:
  assumes "\<And>is evs. list_all is_read evs \<Longrightarrow> list_all returned evs
             \<Longrightarrow> sat (f is) (\<lambda>r n. Q r (evs @ n))"
    and "\<And>e evs. list_all is_read evs \<Longrightarrow> raises_last e evs \<Longrightarrow> Q (Inl e) evs"
  shows "sat (bind (sheets_info h wss) f) Q"
  by (rule sat_bind_weaken[OF sheets_info_calm])
    (auto split: sum.splits simp: calm_def intro: assms)

lemma read_range_no_document: assumes "\<not> truthy fp"
  shows "sat (read_range h sf fp sheet ra av) (\<lambda>r evs. active_document_outcome fp (r, evs))"
  using assms
  apply (simp add: read_range_def prim_defs Let_def cong del: if_weak_cong)
  apply (intro exec_rules)
  apply (auto simp: active_document_outcome_def resolved_def dest: raises_last_mem)
  done

lemma write_range_no_document: assumes "\<not> truthy fp"
  shows "sat (write_range h sf fp sheet ra data save) (\<lambda>r evs. active_document_outcome fp (r, evs))"
  using assms
  apply (simp add: write_range_def prim_defs Let_def cong del: if_weak_cong)
  apply (intro exec_rules)
  apply (auto simp: active_document_outcome_def resolved_def dest: raises_last_mem)
  done

lemma run_macro_no_document: assumes "\<not> truthy fp"
  shows "sat (run_macro h sf cn fp mn args) (\<lambda>r evs. active_document_outcome fp (r, evs))"
  using assms
  apply (simp add: run_macro_def prim_defs Let_def cong del: if_weak_cong)
  apply (intro exec_rules)
  apply (auto simp: active_document_outcome_def resolved_def dest: raises_last_mem)
  done

lemma list_sheets_no_document: assumes "\<not> truthy fp"
  shows "sat (list_sheets h fp) (\<lambda>r evs. active_document_outcome fp (r, evs))"
  using assms
  apply (simp add: list_sheets_def prim_defs Let_def cong del: if_weak_cong)
  apply (intro exec_rules sat_bind_sheet_names)
  apply (auto simp: active_document_outcome_def resolved_def dest: raises_last_mem)
  done

lemma create_chart_no_document: assumes "\<not> truthy fp"
  shows "sat (create_chart h sf fp sheet dr ct ti pos) (\<lambda>r evs. active_document_outcome fp (r, evs))"
  using assms
  apply (simp add: create_chart_def prim_defs Let_def cong del: if_weak_cong)
  apply (intro exec_rules)
  apply (auto simp: active_document_outcome_def resolved_def dest: raises_last_mem)
  done

lemma get_active_info_no_document:
  "sat (get_active_info h) (\<lambda>r evs. active_document_outcome PNone (r, evs))"
  apply (simp add: get_active_info_def prim_defs Let_def cong del: if_weak_cong)
  apply (intro exec_rules sat_bind_sheets_info)
  apply (auto simp: active_document_outcome_def resolved_def dest: raises_last_mem)
  done

text \<open>
  Claim C6 says that an operation without an explicit path on a host with no open
  document always returns the no-active-document failure, never an error of the host.
  The handlers recognise that state only when \<^verbatim>\<open>xw.books.active\<close> gives \<open>None\<close>: on
  a host with no open document that raises when it is asked for the active one,
  \<^verbatim>\<open>read\<close> returns a failure result with the message of the host.
\<close>

theorem no_open_document_host_error_reported:
  "read_range no_document_host obj_str PNone PNone (PStr ''A1'') (PBool True) [] =
     (Inr (failure ''no active workbook''),
      [(Import ''xlwings'', Inr (PObj 1)),
       (GetAttr (PObj 1) ''books'', Inr (PObj 1)),
       (GetAttr (PObj 1) ''active'', Inl (Exc False ''no active workbook''))])
   \<and> failure ''no active workbook'' \<noteq> failure msg_no_workbook"
  by (simp add: read_range_def prim_defs catch_all_def run_defs no_document_host_def
        failure_def msg_no_workbook_def)

text \<open>
  Claim C6, amended: for an operation that resolves its document without an explicit
  path (\<^verbatim>\<open>read\<close>, \<^verbatim>\<open>write\<close>, \<^verbatim>\<open>run_macro\<close>, \<^verbatim>\<open>list_sheets\<close>, \<^verbatim>\<open>create_chart\<close> with
  a false path, \<^verbatim>\<open>get_active\<close> always): when \<^verbatim>\<open>xw.books.active\<close> gives \<open>None\<close> the
  operation returns the failure result with the no-workbook message and asks nothing
  more of the host; when the host raises instead, the operation returns the failure
  result with the message of the host; and no exception propagates but one raised by
  the import of the library.
\<close>

theorem no_open_document_reported:
  assumes "\<not> truthy fp"
  shows "active_document_outcome fp (read_range h sf fp sheet ra av tr)
       \<and> active_document_outcome fp (write_range h sf fp sheet ra data save tr)
       \<and> active_document_outcome fp (run_macro h sf cn fp mn args tr)
       \<and> active_document_outcome PNone (get_active_info h tr)
       \<and> active_document_outcome fp (list_sheets h fp tr)
       \<and> active_document_outcome fp (create_chart h sf fp sheet dr ct ti pos tr)"
proof (intro conjI)
  show "active_document_outcome fp (read_range h sf fp sheet ra av tr)"
    using sat_outcome[OF read_range_no_document[OF assms]] by simp
  show "active_document_outcome fp (write_range h sf fp sheet ra data save tr)"
    using sat_outcome[OF write_range_no_document[OF assms]] by simp
  show "active_document_outcome fp (run_macro h sf cn fp mn args tr)"
    using sat_outcome[OF run_macro_no_document[OF assms]] by simp
  show "active_document_outcome PNone (get_active_info h tr)"
    using sat_outcome[OF get_active_info_no_document] by simp
  show "active_document_outcome fp (list_sheets h fp tr)"
    using sat_outcome[OF list_sheets_no_document[OF assms]] by simp
  show "active_document_outcome fp (create_chart h sf fp sheet dr ct ti pos tr)"
    using sat_outcome[OF create_chart_no_document[OF assms]] by simp
qed

theorem no_open_document_reported_witness:
  "\<not> truthy PNone
   \<and> read_range empty_host obj_str PNone PNone (PStr ''A1'') (PBool True) [] =
       (Inr (failure msg_no_workbook),
        [(Import ''xlwings'', Inr (PObj 1)),
         (GetAttr (PObj 1) ''books'', Inr (PObj 1)),
         (GetAttr (PObj 1) ''active'', Inr PNone)])
   \<and> resolved PNone PNone
        (snd (read_range empty_host obj_str PNone PNone (PStr ''A1'') (PBool True) []))
   \<and> fst (write_range empty_host obj_str PNone PNone (PStr ''A1'') (PInt 7) (PBool True) []) =
       Inr (failure msg_no_workbook)
   \<and> fst (run_macro empty_host obj_str macro_str PNone (PStr ''Refresh'') PNone []) =
       Inr (failure msg_no_workbook)
   \<and> fst (get_active_info empty_host []) = Inr (failure msg_no_workbook)
   \<and> fst (list_sheets empty_host PNone []) = Inr (failure msg_no_workbook)
   \<and> fst (create_chart empty_host obj_str PNone PNone (PStr ''A1:B10'') (PStr ''line'') (PStr [])
          (PStr ''E1'') []) = Inr (failure msg_no_workbook)
   \<and> (GetAttr (PObj 1) ''active'', Inl (Exc False ''no active workbook''))
        \<in> set (tl (snd (get_active_info no_document_host [])))
   \<and> fst (get_active_info no_document_host []) = Inr (failure ''no active workbook'')
   \<and> fst (write_range no_document_host obj_str PNone PNone (PStr ''A1'') (PInt 7) (PBool True) [])
       = Inr (failure ''no active workbook'')
   \<and> fst (run_macro no_document_host obj_str macro_str PNone (PStr ''Refresh'') PNone []) =
       Inr (failure ''no active workbook'')
   \<and> fst (list_sheets no_document_host PNone []) = Inr (failure ''no active workbook'')
   \<and> fst (create_chart no_document_host obj_str PNone PNone (PStr ''A1:B10'') (PStr ''line'')
          (PStr []) (PStr ''E1'') []) = Inr (failure ''no active workbook'')
   \<and> active_document_outcome PNone
        (read_range no_lib_host obj_str PNone PNone (PStr ''A1'') (PBool True) [])
   \<and> read_range no_lib_host obj_str PNone PNone (PStr ''A1'') (PBool True) [] =
       (Inl (Exc True ''No module named xlwings''),
        [(Import ''xlwings'', Inl (Exc True ''No module named xlwings''))])"
  using no_open_document_reported [where fp = PNone and h = empty_host and sf = obj_str
      and cn = macro_str and sheet = PNone and ra = "PStr ''A1''" and av = "PBool True"
      and data = "PInt 7" and save = "PBool True" and mn = "PStr ''Refresh''" and args = PNone
      and dr = "PStr ''A1:B10''" and ct = "PStr ''line''" and ti = "PStr []"
      and pos = "PStr ''E1''" and tr = "[]"]
    no_open_document_reported [where fp = PNone and h = no_document_host and sf = obj_str
      and cn = macro_str and sheet = PNone and ra = "PStr ''A1''" and av = "PBool True"
      and data = "PInt 7" and save = "PBool True" and mn = "PStr ''Refresh''" and args = PNone
      and dr = "PStr ''A1:B10''" and ct = "PStr ''line''" and ti = "PStr []"
      and pos = "PStr ''E1''" and tr = "[]"]
    no_open_document_reported [where fp = PNone and h = no_lib_host and sf = obj_str
      and cn = macro_str and sheet = PNone and ra = "PStr ''A1''" and av = "PBool True"
      and data = "PInt 7" and save = "PBool True" and mn = "PStr ''Refresh''" and args = PNone
      and dr = "PStr ''A1:B10''" and ct = "PStr ''line''" and ti = "PStr []"
      and pos = "PStr ''E1''" and tr = "[]"]
  by (simp add: read_range_def write_range_def run_macro_def get_active_info_def
        list_sheets_def create_chart_def prim_defs catch_all_def run_defs empty_host_def
        no_document_host_def no_lib_host_def resolved_def active_document_outcome_def)
section \<open>Errors of the host\<close>

lemma run_macro_error_verbatim:
  "sat (run_macro h sf cn fp mn args) (\<lambda>r evs. error_verbatim (r, evs))"
  apply (simp add: run_macro_def prim_defs Let_def cong del: if_weak_cong)
  apply (intro exec_rules)
  apply (simp_all add: error_verbatim_def)
  done

text \<open>
  Claim C7: whenever a call of \<^verbatim>\<open>run_macro\<close> to the host raises (opening the document,
  looking the macro up, running it, reading the name, closing), the result is the failure
  result whose error is the message of that exception, unchanged; only the import, which
  is outside the \<^verbatim>\<open>try\<close>, lets an exception through.
\<close>

theorem run_macro_host_error_passed_through:
  "error_verbatim (run_macro h sf cn fp mn args tr)"
  using sat_outcome[OF run_macro_error_verbatim, of h sf cn fp mn args tr] by simp

theorem run_macro_host_error_passed_through_witness:
  "error_verbatim (run_macro no_macro_host obj_str macro_str PNone (PStr ''Missing'') PNone [])
   \<and> (Call (PObj 1) [], Inl (Exc False ''Macro not found: Missing''))
        \<in> set (tl (snd (run_macro no_macro_host obj_str macro_str PNone (PStr ''Missing'') PNone [])))
   \<and> fst (run_macro no_macro_host obj_str macro_str PNone (PStr ''Missing'') PNone []) =
       Inr (failure ''Macro not found: Missing'')"
  using run_macro_host_error_passed_through [of no_macro_host obj_str macro_str PNone
      "PStr ''Missing''" PNone "[]"]
  by (simp add: run_macro_def prim_defs catch_all_def run_defs no_macro_host_def)

section \<open>The shape of the data that is read\<close>

lemma read_range_values: assumes "truthy av"
  shows "sat (read_range h sf fp sheet ra av) (\<lambda>r evs. data_from_host normalize_value (r, evs))"
  using assms
  apply (simp add: read_range_def prim_defs Let_def cong del: if_weak_cong)
  apply (intro exec_rules)
  apply (simp_all add: data_from_host_def field_def)
  done

lemma read_range_text: assumes "\<not> truthy av"
  shows "sat (read_range h sf fp sheet ra av) (\<lambda>r evs. data_from_host (as_text sf) (r, evs))"
  using assms
  apply (simp add: read_range_def prim_defs Let_def cong del: if_weak_cong)
  apply (intro exec_rules)
  apply (simp_all add: data_from_host_def field_def as_text_def)
  done

lemma normalize_value_list: "is_list (normalize_value v)"
  by (cases v) (auto simp: normalize_value_def split: list.splits)

lemma normalize_value_scalar: "\<not> is_list v \<Longrightarrow> normalize_value v = PList [PList [v]]"
  by (simp add: normalize_value_def)

lemma normalize_value_flat:
  "is_flat v \<Longrightarrow> v \<noteq> PList [] \<Longrightarrow> normalize_value v = PList [v]"
  by (cases v) (auto simp: normalize_value_def is_flat_def split: list.splits)

lemma normalize_value_grid: "is_grid v \<Longrightarrow> normalize_value v = v"
  by (cases v) (auto simp: normalize_value_def is_grid_def split: list.splits)

lemma normalize_value_is_grid:
  "\<not> is_list v \<or> is_flat v \<or> is_grid v \<Longrightarrow> is_grid (normalize_value v)"
  by (cases v) (auto simp: normalize_value_def is_grid_def is_flat_def split: list.splits)


text \<open>
  Claim C3 says that the payload of every read is a rectangular grid. With
  \<^verbatim>\<open>as_values\<close> false the payload is the string of the host's value: on a host whose
  open document holds 5 in the cell, the payload is the string "5".
\<close>

theorem read_as_text_is_not_a_grid:
  "read_range cell_host five_str PNone PNone (PStr ''A1'') (PBool False) [] =
     (Inr (PDict [
        (''success'', PBool True),
        (''data'', PStr ''5''),
        (''workbook'', PStr ''Book1''),
        (''sheet'', PStr ''Sheet1''),
        (''range'', PStr ''A1''),
        (''rows'', PInt 1),
        (''cols'', PInt 1)]),
      [(Import ''xlwings'', Inr (PObj 0)),
       (GetAttr (PObj 0) ''books'', Inr (PObj 1)),
       (GetAttr (PObj 1) ''active'', Inr (PObj 2)),
       (GetAttr (PObj 2) ''sheets'', Inr (PObj 3)),
       (GetAttr (PObj 3) ''active'', Inr (PObj 4)),
       (Invoke (PObj 4) ''range'' [PStr ''A1''] [], Inr (PObj 5)),
       (GetAttr (PObj 5) ''value'', Inr (PInt 5)),
       (GetAttr (PObj 2) ''name'', Inr (PStr ''Book1'')),
       (GetAttr (PObj 4) ''name'', Inr (PStr ''Sheet1'')),
       (GetAttr (PObj 5) ''rows'', Inr (PObj 6)),
       (GetAttr (PObj 6) ''count'', Inr (PInt 1)),
       (GetAttr (PObj 5) ''columns'', Inr (PObj 6)),
       (GetAttr (PObj 6) ''count'', Inr (PInt 1))])
   \<and> \<not> is_grid (PStr ''5'')"
  by (simp add: read_range_def prim_defs catch_all_def run_defs cell_host_def py_str_def
        five_str_def is_grid_def)

text \<open>
  Claim C3, amended: after a successful read with \<^verbatim>\<open>as_values\<close> true the payload is the
  normalised value of the host, which is a list in every case, never a bare scalar: a
  1 by 1 grid for a value that is not a list, a one-row grid for a non-empty flat list,
  the value itself for a grid; for these three shapes of the host's value it is a grid.
  With \<^verbatim>\<open>as_values\<close> false the payload is the string of the host's value.
\<close>

theorem read_values_normalized:
  shows "(truthy av \<longrightarrow> data_from_host normalize_value (read_range h sf fp sheet ra av tr))
       \<and> (\<not> truthy av \<longrightarrow> data_from_host (as_text sf) (read_range h sf fp sheet ra av tr))
       \<and> is_list (normalize_value v)
       \<and> (\<not> is_list v \<longrightarrow> normalize_value v = PList [PList [v]])
       \<and> (is_flat v \<and> v \<noteq> PList [] \<longrightarrow> normalize_value v = PList [v])
       \<and> (is_grid v \<longrightarrow> normalize_value v = v)
       \<and> (\<not> is_list v \<or> is_flat v \<or> is_grid v \<longrightarrow> is_grid (normalize_value v))"
proof (intro conjI impI)
  assume "truthy av"
  from sat_outcome[OF read_range_values[OF this]]
  show "data_from_host normalize_value (read_range h sf fp sheet ra av tr)"
    by simp
next
  assume "\<not> truthy av"
  from sat_outcome[OF read_range_text[OF this]]
  show "data_from_host (as_text sf) (read_range h sf fp sheet ra av tr)"
    by simp
next
  assume "is_flat v \<and> v \<noteq> PList []"
  then show "normalize_value v = PList [v]"
    by (simp add: normalize_value_flat)
qed (simp_all add: normalize_value_list normalize_value_scalar normalize_value_grid
    normalize_value_is_grid)

theorem read_values_normalized_witness:
  "truthy (PBool True)
   \<and> data_from_host normalize_value
        (read_range cell_host five_str PNone PNone (PStr ''A1'') (PBool True) [])
   \<and> read_range cell_host five_str PNone PNone (PStr ''A1'') (PBool True) [] =
     (Inr (PDict [
        (''success'', PBool True),
        (''data'', PList [PList [PInt 5]]),
        (''workbook'', PStr ''Book1''),
        (''sheet'', PStr ''Sheet1''),
        (''range'', PStr ''A1''),
        (''rows'', PInt 1),
        (''cols'', PInt 1)]),
      [(Import ''xlwings'', Inr (PObj 0)),
       (GetAttr (PObj 0) ''books'', Inr (PObj 1)),
       (GetAttr (PObj 1) ''active'', Inr (PObj 2)),
       (GetAttr (PObj 2) ''sheets'', Inr (PObj 3)),
       (GetAttr (PObj 3) ''active'', Inr (PObj 4)),
       (Invoke (PObj 4) ''range'' [PStr ''A1''] [], Inr (PObj 5)),
       (GetAttr (PObj 5) ''value'', Inr (PInt 5)),
       (GetAttr (PObj 2) ''name'', Inr (PStr ''Book1'')),
       (GetAttr (PObj 4) ''name'', Inr (PStr ''Sheet1'')),
       (GetAttr (PObj 5) ''rows'', Inr (PObj 6)),
       (GetAttr (PObj 6) ''count'', Inr (PInt 1)),
       (GetAttr (PObj 5) ''columns'', Inr (PObj 6)),
       (GetAttr (PObj 6) ''count'', Inr (PInt 1))])
   \<and> \<not> truthy (PBool False)
   \<and> data_from_host (as_text five_str)
        (read_range cell_host five_str PNone PNone (PStr ''A1'') (PBool False) [])
   \<and> as_text five_str (PInt 5) = PStr ''5''
   \<and> \<not> is_list (PInt 5) \<and> normalize_value (PInt 5) = PList [PList [PInt 5]]
   \<and> is_grid (normalize_value (PInt 5))
   \<and> is_flat (PList [PInt 1, PInt 2]) \<and> PList [PInt 1, PInt 2] \<noteq> PList []
   \<and> normalize_value (PList [PInt 1, PInt 2]) = PList [PList [PInt 1, PInt 2]]
   \<and> is_grid (normalize_value (PList [PInt 1, PInt 2]))
   \<and> is_grid (PList [PList [PInt 1, PInt 2], PList [PInt 3, PInt 4]])
   \<and> normalize_value (PList [PList [PInt 1, PInt 2], PList [PInt 3, PInt 4]]) =
       PList [PList [PInt 1, PInt 2], PList [PInt 3, PInt 4]]"
  using read_values_normalized [where av = "PBool True" and sf = five_str and h = cell_host
      and fp = PNone and sheet = PNone and ra = "PStr ''A1''" and tr = "[]" and v = "PInt 5"]
    read_values_normalized [where av = "PBool False" and sf = five_str and h = cell_host
      and fp = PNone and sheet = PNone and ra = "PStr ''A1''" and tr = "[]"
      and v = "PList [PInt 1, PInt 2]"]
    read_values_normalized [where av = "PBool True" and sf = five_str and h = cell_host
      and fp = PNone and sheet = PNone and ra = "PStr ''A1''" and tr = "[]"
      and v = "PList [PList [PInt 1, PInt 2], PList [PInt 3, PInt 4]]"]
  by (simp add: read_range_def prim_defs catch_all_def run_defs cell_host_def py_str_def
        five_str_def normalize_value_def is_flat_def is_grid_def field_def data_from_host_def
        as_text_def)

section \<open>Listing the sheets\<close>

lemma list_sheets_listed:
  "sat (list_sheets h fp) (\<lambda>r evs. sheets_listed fp (r, evs))"
  apply (simp add: list_sheets_def prim_defs Let_def cong del: if_weak_cong)
  apply (intro exec_rules sat_bind_sheet_names)
  apply (simp_all add: sheets_listed_def field_def)
  apply blast+
  done


text \<open>
  Claim C9: a successful \<^verbatim>\<open>list_sheets\<close> returns the names of the sheets of the resolved
  document, in the order in which the document gives its sheets, and a count equal to
  the number of names. For the document with the sheets Sheet1, Summary and Data the
  result is that list with count 3, as evaluated after the theorem.
\<close>

theorem list_sheets_names_in_order:
  "sheets_listed fp (list_sheets h fp tr)"
  using sat_outcome[OF list_sheets_listed] by simp

theorem list_sheets_names_in_order_witness:
  "sheets_listed PNone (list_sheets three_sheets_host PNone [])
   \<and> fst (list_sheets three_sheets_host PNone []) =
     Inr (PDict [
       (''success'', PBool True),
       (''workbook'', PStr ''Book1''),
       (''sheets'', PList [PStr ''Sheet1'', PStr ''Summary'', PStr ''Data'']),
       (''count'', PInt 3)])"
  using list_sheets_names_in_order [of PNone three_sheets_host "[]"]
  by (simp add: list_sheets_def prim_defs catch_all_def run_defs three_sheets_host_def
        py_iter_def)

section \<open>One result per run\<close>

lemma reads_not_import_failed [simp]:
  "list_all is_read evs \<Longrightarrow> \<not> list_ex import_failed evs"
  by (induction evs) (auto simp: is_read_def import_failed_def split: call.splits)

lemma read_range_handled:
  "sat (read_range h sf fp sheet ra av) (\<lambda>r evs. handled (r, evs))"
  apply (simp add: read_range_def prim_defs Let_def cong del: if_weak_cong)
  apply (intro exec_rules)
  apply (auto simp: handled_def is_print_def import_failed_def dest: raises_last_mem)
  done

lemma write_range_handled:
  "sat (write_range h sf fp sheet ra data save) (\<lambda>r evs. handled (r, evs))"
  apply (simp add: write_range_def prim_defs Let_def cong del: if_weak_cong)
  apply (intro exec_rules)
  apply (auto simp: handled_def is_print_def import_failed_def dest: raises_last_mem)
  done

lemma run_macro_handled:
  "sat (run_macro h sf cn fp mn args) (\<lambda>r evs. handled (r, evs))"
  apply (simp add: run_macro_def prim_defs Let_def cong del: if_weak_cong)
  apply (intro exec_rules)
  apply (auto simp: handled_def is_print_def import_failed_def dest: raises_last_mem)
  done

lemma get_active_info_handled:
  "sat (get_active_info h) (\<lambda>r evs. handled (r, evs))"
  apply (simp add: get_active_info_def prim_defs Let_def cong del: if_weak_cong)
  apply (intro exec_rules sat_bind_sheets_info)
  apply (auto simp: handled_def is_print_def import_failed_def dest: raises_last_mem)
  done

lemma list_sheets_handled:
  "sat (list_sheets h fp) (\<lambda>r evs. handled (r, evs))"
  apply (simp add: list_sheets_def prim_defs Let_def cong del: if_weak_cong)
  apply (intro exec_rules sat_bind_sheet_names)
  apply (auto simp: handled_def is_print_def import_failed_def dest: raises_last_mem)
  done

lemma create_chart_handled:
  "sat (create_chart h sf fp sheet dr ct ti pos) (\<lambda>r evs. handled (r, evs))"
  apply (simp add: create_chart_def prim_defs Let_def cong del: if_weak_cong)
  apply (intro exec_rules)
  apply (auto simp: handled_def is_print_def import_failed_def dest: raises_last_mem)
  done

lemma bind_kwargs_accepted:
  "accepts opn ps \<Longrightarrow> \<exists>kw. bind_kwargs fname (op_parameters opn) ps = ret kw"
  by (cases ps) (auto simp: accepts_def bind_kwargs_def list_all_iff filter_empty_conv
      split: list.splits)

lemma bind_kwargs_rejected:
  "\<not> accepts opn ps \<Longrightarrow> \<exists>e. bind_kwargs fname (op_parameters opn) ps = raise e"
  by (cases ps) (auto simp: accepts_def bind_kwargs_def list_all_iff filter_empty_conv
      split: list.splits)

lemma bind_ret: "bind (ret x) f = f x"
  by (simp add: bind_def ret_def fun_eq_iff split: prod.splits)

lemma bind_raise: "bind (raise e) f = raise e"
  by (simp add: bind_def raise_def fun_eq_iff)

lemma operation_handled:
  assumes "operations h sf cn opn = Some f" and "accepts opn ps"
  shows "sat (f ps) (\<lambda>r evs. handled (r, evs))"
proof -
  consider "opn = ''read''" | "opn = ''write''" | "opn = ''run_macro''" | "opn = ''get_active''"
    | "opn = ''list_sheets''" | "opn = ''create_chart''"
    using assms(1) by (auto simp: operations_def split: if_splits)
  then show ?thesis
  proof cases
    case 1
    with assms bind_kwargs_accepted[OF assms(2), of "''read_range''"] show ?thesis
      by (auto simp: operations_def call_read_range_def bind_ret read_range_handled)
  next
    case 2
    with assms bind_kwargs_accepted[OF assms(2), of "''write_range''"] show ?thesis
      by (auto simp: operations_def call_write_range_def bind_ret write_range_handled)
  next
    case 3
    with assms bind_kwargs_accepted[OF assms(2), of "''run_macro''"] show ?thesis
      by (auto simp: operations_def call_run_macro_def bind_ret run_macro_handled)
  next
    case 4
    with assms bind_kwargs_accepted[OF assms(2), of "''get_active_info''"] show ?thesis
      by (auto simp: operations_def call_get_active_info_def bind_ret get_active_info_handled)
  next
    case 5
    with assms bind_kwargs_accepted[OF assms(2), of "''list_sheets''"] show ?thesis
      by (auto simp: operations_def call_list_sheets_def bind_ret list_sheets_handled)
  next
    case 6
    with assms bind_kwargs_accepted[OF assms(2), of "''create_chart''"] show ?thesis
      by (auto simp: operations_def call_create_chart_def bind_ret create_chart_handled)
  qed
qed

lemma operation_rejects:
  assumes "operations h sf cn opn = Some f" and "\<not> accepts opn ps"
  shows "\<exists>e. f ps = raise e"
proof -
  consider "opn = ''read''" | "opn = ''write''" | "opn = ''run_macro''" | "opn = ''get_active''"
    | "opn = ''list_sheets''" | "opn = ''create_chart''"
    using assms(1) by (auto simp: operations_def split: if_splits)
  then show ?thesis
  proof cases
    case 1
    with assms bind_kwargs_rejected[OF assms(2), of "''read_range''"] show ?thesis
      by (auto simp: operations_def call_read_range_def bind_raise)
  next
    case 2
    with assms bind_kwargs_rejected[OF assms(2), of "''write_range''"] show ?thesis
      by (auto simp: operations_def call_write_range_def bind_raise)
  next
    case 3
    with assms bind_kwargs_rejected[OF assms(2), of "''run_macro''"] show ?thesis
      by (auto simp: operations_def call_run_macro_def bind_raise)
  next
    case 4
    with assms bind_kwargs_rejected[OF assms(2), of "''get_active_info''"] show ?thesis
      by (auto simp: operations_def call_get_active_info_def bind_raise)
  next
    case 5
    with assms bind_kwargs_rejected[OF assms(2), of "''list_sheets''"] show ?thesis
      by (auto simp: operations_def call_list_sheets_def bind_raise)
  next
    case 6
    with assms bind_kwargs_rejected[OF assms(2), of "''create_chart''"] show ?thesis
      by (auto simp: operations_def call_create_chart_def bind_raise)
  qed
qed

lemma lift_simps: "lift (Inr x) = ret x" "lift (Inl e) = raise e"
  by (simp_all add: lift_def ret_def raise_def)

lemma no_print_no_print_failed [simp]:
  "\<not> list_ex is_print evs \<Longrightarrow> \<not> list_ex print_failed evs"
  by (induction evs) (auto simp: is_print_def print_failed_def split: call.splits)

lemma no_print_not_printed [simp]:
  "\<not> list_ex is_print evs \<Longrightarrow> \<not> list_ex printed evs"
  by (induction evs) (auto simp: is_print_def printed_def split: call.splits)

text \<open>The outcomes of a run, for one decoded parameter bag \<open>ps\<close> and the handler of the
  operation \<open>opn\<close>.\<close>

lemma run_operation_outcome:
  assumes "operations h sf cn opn = Some f"
  shows "sat (bind (f ps) (\<lambda>result. print_raw pe result))
           (\<lambda>r evs.
              (accepts opn ps \<and> \<not> list_ex import_failed evs \<and> \<not> list_ex print_failed evs
                 \<longrightarrow> one_result_printed (r, evs)) \<and>
              (list_ex print_failed evs \<longrightarrow> print_escapes (r, evs)) \<and>
              (list_ex import_failed evs \<longrightarrow> import_escapes (r, evs)) \<and>
              (\<not> accepts opn ps \<longrightarrow> escapes_before_calls (r, evs)))"
proof (cases "accepts opn ps")
  case True
  show ?thesis
    apply (rule sat_bind_weaken[OF operation_handled[OF assms True]])
    apply (auto split: sum.splits simp: True handled_def import_failed_def print_failed_def
        printed_def one_result_printed_def result_written_def print_escapes_def
        import_escapes_def intro!: sat_print_raw)
    done
next
  case False
  from operation_rejects[OF assms False] obtain e where "f ps = raise e" ..
  then show ?thesis
    by (simp add: bind_raise False sat_raise escapes_before_calls_def)
qed

text \<open>
  Claim C2 says that every failure during handling becomes a failure result and that
  exactly one result object is printed. The import of the library is outside the
  \<^verbatim>\<open>try\<close> of each handler and \<^verbatim>\<open>main\<close> catches nothing: when the library is not
  installed, \<^verbatim>\<open>read\<close> ends with the \<^verbatim>\<open>ImportError\<close> uncaught and nothing printed.
\<close>

theorem failed_import_escapes_handler:
  "main no_lib_host obj_str macro_str no_json wide_out
     \<lparr>check = False, operation = Some ''read'', params = None\<rparr> [] =
     (Inl (Exc True ''No module named xlwings''),
      [(Import ''xlwings'', Inl (Exc True ''No module named xlwings''))])"
  by (simp add: main_def params_value_def lift_def operations_def call_read_range_def
        bind_kwargs_def read_range_def import_xlwings_def run_defs no_lib_host_def)

text \<open>
  Claim C2, amended: in a run with an operation name, a failure of a call to the host
  after the import becomes a failure result, but four failures propagate uncaught, with
  no object printed: the decoding of the parameters raising, and the call of the handler
  raising because the decoded bag is not a dict whose keys are parameters of the handler
  (both before any call to the host); the import of the library raising (the only call
  made); and the writing of the result raising, which only a result with text beyond
  ASCII can do. In every other run the process ends normally and the one object it
  prints, as its last act, is a result object; if any call to the host raised, that
  object is the failure result with the message of the exception. (Without an operation
  name, or with a name that is not registered, the one object printed is a failure
  result.)
\<close>

theorem operation_run_prints_one_result_or_escapes:
  assumes "\<not> check a"
  shows "(params_value jl a = Inr ps
          \<and> (\<forall>opn. operation a = Some opn \<and> operations h sf cn opn \<noteq> None \<longrightarrow> accepts opn ps)
          \<and> \<not> list_ex import_failed (snd (main h sf cn jl pe a tr))
          \<and> \<not> list_ex print_failed (snd (main h sf cn jl pe a tr))
          \<longrightarrow> one_result_printed (main h sf cn jl pe a tr))
       \<and> (list_ex print_failed (snd (main h sf cn jl pe a tr))
            \<longrightarrow> print_escapes (main h sf cn jl pe a tr))
       \<and> (list_ex import_failed (snd (main h sf cn jl pe a tr))
            \<longrightarrow> import_escapes (main h sf cn jl pe a tr))
       \<and> (operation a = Some opn \<and> opn \<noteq> [] \<and> params_value jl a = Inl e
            \<longrightarrow> main h sf cn jl pe a tr = (Inl e, []))
       \<and> (operation a = Some opn \<and> operations h sf cn opn \<noteq> None
            \<and> params_value jl a = Inr ps \<and> \<not> accepts opn ps
            \<longrightarrow> escapes_before_calls (main h sf cn jl pe a tr))"
proof -
  have none: "main h sf cn jl pe a tr = (Inr (), [(Print (failure msg_no_operation), Inr PNone)])"
    if "operation a = None \<or> operation a = Some []"
    using that assms by (auto simp: main_def print_ascii_def)
  have decode: "main h sf cn jl pe a tr = (Inl x, [])"
    if "operation a = Some n" "n \<noteq> []" "params_value jl a = Inl x" for n x
    using that assms by (simp add: main_def lift_simps bind_def raise_def)
  have unknown: "main h sf cn jl pe a tr =
      (Inr (), [(Print (failure (msg_unknown_operation @ n)), Inr PNone)])"
    if "operation a = Some n" "n \<noteq> []" "params_value jl a = Inr q" "operations h sf cn n = None"
    for n q
    using that assms by (simp add: main_def lift_simps bind_ret print_ascii_def)
  have known: "main h sf cn jl pe a = bind (f q) (\<lambda>result. print_raw pe result)"
    if "operation a = Some n" "params_value jl a = Inr q" "operations h sf cn n = Some f"
    for n q f
  proof -
    from that(3) have "n \<noteq> []"
      by (auto simp: operations_def)
    with that assms show ?thesis
      by (simp add: main_def lift_simps bind_ret)
  qed
  have printed_one: "one_result_printed (Inr (), [(Print (failure m), Inr PNone)])" for m
    by (simp add: one_result_printed_def result_written_def printed_def)
  have quiet: "\<not> list_ex print_failed [(Print v, Inr PNone)]"
    "\<not> list_ex import_failed [(Print v, Inr PNone)]" for v
    by (simp_all add: print_failed_def import_failed_def)
  show ?thesis
  proof (cases "operation a = None \<or> operation a = Some []")
    case True
    have "operations h sf cn [] = None"
      by (simp add: operations_def)
    with True show ?thesis
      using none[OF True] printed_one quiet by auto
  next
    case False
    then obtain n where n: "operation a = Some n" "n \<noteq> []"
      by (cases "operation a") auto
    show ?thesis
    proof (cases "params_value jl a")
      case (Inl x)
      with decode[OF n Inl] n show ?thesis
        by (simp add: import_failed_def print_failed_def)
    next
      case (Inr q)
      show ?thesis
      proof (cases "operations h sf cn n")
        case None
        with unknown[OF n Inr None] n Inr printed_one quiet show ?thesis
          by auto
      next
        case (Some f)
        from sat_outcome[OF run_operation_outcome[OF Some], of q pe tr] known[OF n(1) Inr Some]
          n Inr Some
        show ?thesis
          by auto
      qed
    qed
  qed
qed

theorem operation_run_prints_one_result_or_escapes_witness:
  "\<not> check \<lparr>check = False, operation = Some ''run_macro'', params = None\<rparr>
   \<and> params_value no_json \<lparr>check = False, operation = Some ''run_macro'', params = None\<rparr> =
       Inr (PDict [])
   \<and> accepts ''run_macro'' (PDict [])
   \<and> main no_macro_host obj_str macro_str no_json narrow_out
        \<lparr>check = False, operation = Some ''run_macro'', params = None\<rparr> [] =
       (Inr (),
        [(Import ''xlwings'', Inr (PObj 1)),
         (GetAttr (PObj 1) ''books'', Inr (PObj 1)),
         (GetAttr (PObj 1) ''active'', Inr (PObj 1)),
         (Invoke (PObj 1) ''macro'' [PStr []] [], Inr (PObj 1)),
         (Call (PObj 1) [], Inl (Exc False ''Macro not found: Missing'')),
         (Print (failure ''Macro not found: Missing''), Inr PNone)])
   \<and> one_result_printed
        (main no_macro_host obj_str macro_str no_json narrow_out
           \<lparr>check = False, operation = Some ''run_macro'', params = None\<rparr> [])
   \<and> main empty_host obj_str macro_str no_json narrow_out
        \<lparr>check = False, operation = Some ''get_active'', params = None\<rparr> [] =
       (Inl (Exc False ''codec cannot encode characters''),
        [(Import ''xlwings'', Inr (PObj 1)),
         (GetAttr (PObj 1) ''books'', Inr (PObj 1)),
         (GetAttr (PObj 1) ''active'', Inr PNone),
         (Print (failure msg_no_workbook), Inl (Exc False ''codec cannot encode characters''))])
   \<and> print_escapes
        (main empty_host obj_str macro_str no_json narrow_out
           \<lparr>check = False, operation = Some ''get_active'', params = None\<rparr> [])
   \<and> main no_lib_host obj_str macro_str no_json wide_out
        \<lparr>check = False, operation = Some ''list_sheets'', params = None\<rparr> [] =
       (Inl (Exc True ''No module named xlwings''),
        [(Import ''xlwings'', Inl (Exc True ''No module named xlwings''))])
   \<and> import_escapes
        (main no_lib_host obj_str macro_str no_json wide_out
           \<lparr>check = False, operation = Some ''list_sheets'', params = None\<rparr> [])
   \<and> params_value no_json \<lparr>check = False, operation = Some ''read'', params = Some ''{''\<rparr> =
       Inl (Exc False ''Expecting value'')
   \<and> main ok_host obj_str macro_str no_json wide_out
        \<lparr>check = False, operation = Some ''read'', params = Some ''{''\<rparr> [] =
       (Inl (Exc False ''Expecting value''), [])
   \<and> \<not> accepts ''read'' (PDict [(''colour'', PStr ''red'')])
   \<and> main ok_host obj_str macro_str colour_json wide_out
        \<lparr>check = False, operation = Some ''read'', params = Some ''{}''\<rparr> [] =
       (Inl (Exc False
          (''read_range() got an unexpected keyword argument '' @ [CHR 0x27] @ ''colour''
             @ [CHR 0x27])), [])
   \<and> escapes_before_calls
        (main ok_host obj_str macro_str colour_json wide_out
           \<lparr>check = False, operation = Some ''read'', params = Some ''{}''\<rparr> [])"
  using operation_run_prints_one_result_or_escapes [where a =
      "\<lparr>check = False, operation = Some ''run_macro'', params = None\<rparr>"
      and jl = no_json and ps = "PDict []" and h = no_macro_host and sf = obj_str
      and cn = macro_str and pe = narrow_out and tr = "[]"]
    operation_run_prints_one_result_or_escapes [where a =
      "\<lparr>check = False, operation = Some ''get_active'', params = None\<rparr>"
      and jl = no_json and ps = "PDict []" and h = empty_host and sf = obj_str
      and cn = macro_str and pe = narrow_out and tr = "[]"]
    operation_run_prints_one_result_or_escapes [where a =
      "\<lparr>check = False, operation = Some ''list_sheets'', params = None\<rparr>"
      and jl = no_json and ps = "PDict []" and h = no_lib_host and sf = obj_str
      and cn = macro_str and pe = wide_out and tr = "[]"]
    operation_run_prints_one_result_or_escapes [where a =
      "\<lparr>check = False, operation = Some ''read'', params = Some ''{''\<rparr>"
      and jl = no_json and h = ok_host and sf = obj_str and cn = macro_str and pe = wide_out
      and tr = "[]" and opn = "''read''" and e = "Exc False ''Expecting value''"]
    operation_run_prints_one_result_or_escapes [where a =
      "\<lparr>check = False, operation = Some ''read'', params = Some ''{}''\<rparr>"
      and jl = colour_json and h = ok_host and sf = obj_str and cn = macro_str
      and pe = wide_out and tr = "[]" and opn = "''read''"
      and ps = "PDict [(''colour'', PStr ''red'')]"]
  by (simp add: main_def params_value_def lift_def operations_def call_run_macro_def
        call_get_active_info_def call_list_sheets_def call_read_range_def
        bind_kwargs_def arg_def run_macro_def get_active_info_def list_sheets_def
        read_range_def op_parameters_def prim_defs catch_all_def run_defs
        no_macro_host_def empty_host_def no_lib_host_def ok_host_def accepts_def
        no_json_def colour_json_def narrow_out_def wide_out_def
        import_failed_def print_failed_def printed_def one_result_printed_def
        result_written_def print_escapes_def import_escapes_def escapes_before_calls_def
        failure_def msg_no_workbook_def is_result_def is_success_def field_def)
section \<open>The capability check\<close>









end
